theory Spec2Isabelle
  imports Main "HOL-Library.Word"
begin

section \<open>The cluster status controller\<close>

text \<open>
  A shallow embedding of \<^verbatim>\<open>pkg/controllers/status/cluster_status_controller.go\<close>.
  Calls to the member cluster and to the control plane are modelled by the answers
  they give (a parameter of the model) and by a trace of the calls that were made.
\<close>

subsection \<open>Constants\<close>

definition clusterReady :: string where
  "clusterReady = ''ClusterReady''"

definition clusterHealthy :: string where
  "clusterHealthy = ''cluster is reachable and health endpoint responded with ok''"

definition clusterNotReady :: string where
  "clusterNotReady = ''ClusterNotReady''"

definition clusterUnhealthy :: string where
  "clusterUnhealthy = ''cluster is reachable but health endpoint responded without ok''"

definition clusterNotReachableReason :: string where
  "clusterNotReachableReason = ''ClusterNotReachable''"

definition clusterNotReachableMsg :: string where
  "clusterNotReachableMsg = ''cluster is not reachable''"

text \<open>Durations are counted in milliseconds.\<close>

type_synonym Duration = nat

definition clusterStatusRetryInterval :: Duration where
  "clusterStatusRetryInterval = 500"

definition clusterStatusRetryTimeout :: Duration where
  "clusterStatusRetryTimeout = 2 * 1000"

text \<open>The two HTTP status codes of \<^verbatim>\<open>net/http\<close> that the controller names.\<close>

definition StatusOK :: int where
  "StatusOK = 200"

definition StatusNotFound :: int where
  "StatusNotFound = 404"

text \<open>
  Modelled from the spec: the constant \<^verbatim>\<open>v1alpha1.ClusterConditionReady\<close> is declared in
  \<^verbatim>\<open>pkg/apis/cluster/v1alpha1\<close>; the condition type is fixed to "Ready".
\<close>

definition ClusterConditionReady :: string where
  "ClusterConditionReady = ''Ready''"

text \<open>The values of \<^verbatim>\<open>metav1.ConditionStatus\<close>, a string type.\<close>

definition ConditionTrue :: string where
  "ConditionTrue = ''True''"

definition ConditionFalse :: string where
  "ConditionFalse = ''False''"

subsection \<open>Errors\<close>

text \<open>
  A Go \<^verbatim>\<open>error\<close> value. \<^verbatim>\<open>errors.IsNotFound\<close> recognises the not-found answer of the
  control plane, \<^verbatim>\<open>wait.ErrWaitTimeout\<close> is what \<^verbatim>\<open>wait.Poll\<close> returns at its deadline.
\<close>

datatype error = NotFound | ErrWaitTimeout | Failure string

fun IsNotFound :: "error \<Rightarrow> bool" where
  "IsNotFound NotFound = True"
| "IsNotFound _ = False"

subsection \<open>Data model\<close>

text \<open>
  A \<^verbatim>\<open>metav1.Time\<close> is an instant, counted from the zero time of Go; two of them are
  semantically equal when they are the same instant. \<^verbatim>\<open>IsZero\<close> is asked of a pointer:
  it holds of nil and of the zero time.
\<close>

type_synonym Time = int

definition IsZero :: "Time option \<Rightarrow> bool" where
  "IsZero t = (case t of None \<Rightarrow> True | Some x \<Rightarrow> x = 0)"

record Condition =
  Type :: string
  Status :: string
  ObservedGeneration :: int
  LastTransitionTime :: Time
  Reason :: string
  Message :: string

text \<open>
  A \<^verbatim>\<open>resource.Quantity\<close> is a number with a display format. The model keeps the
  amount in thousandths (the finest unit the controller reads) as an unbounded
  integer, and the format. \<^verbatim>\<open>MilliValue\<close> and \<^verbatim>\<open>Value\<close> return an \<^verbatim>\<open>int64\<close>;
  \<^verbatim>\<open>Value\<close> rounds up to a whole unit.
\<close>

datatype Format = DecimalSI | BinarySI | DecimalExponent

record Quantity =
  millis :: int
  format :: Format

type_synonym int64 = "64 word"

definition NewMilliQuantity :: "int64 \<Rightarrow> Format \<Rightarrow> Quantity" where
  "NewMilliQuantity v f = \<lparr>millis = sint v, format = f\<rparr>"

definition NewQuantity :: "int64 \<Rightarrow> Format \<Rightarrow> Quantity" where
  "NewQuantity v f = \<lparr>millis = sint v * 1000, format = f\<rparr>"

definition MilliValue :: "Quantity \<Rightarrow> int64" where
  "MilliValue q = word_of_int (millis q)"

definition Value :: "Quantity \<Rightarrow> int64" where
  "Value q = word_of_int (- ((- millis q) div 1000))"

text \<open>\<^verbatim>\<open>q.Add(y)\<close>: the sum is exact; a zero receiver takes the format of \<open>y\<close>.\<close>

definition Add :: "Quantity \<Rightarrow> Quantity \<Rightarrow> Quantity" where
  "Add q y = \<lparr>millis = millis q + millis y,
              format = (if millis q = 0 then format y else format q)\<rparr>"

text \<open>\<^verbatim>\<open>corev1.ResourceList\<close> is a Go map from resource names to quantities.\<close>

type_synonym ResourceList = "string \<rightharpoonup> Quantity"

definition ResourceCPU :: string where
  "ResourceCPU = ''cpu''"

definition ResourceMemory :: string where
  "ResourceMemory = ''memory''"

record APIEnablement =
  GroupVersion :: string
  Resources :: "string list"

record NodeSummary =
  TotalNum :: nat
  ReadyNum :: nat
  Allocatable :: ResourceList
  Used :: ResourceList

record ClusterStatus =
  KubernetesVersion :: string
  APIEnablements :: "APIEnablement list"
  Conditions :: "Condition list"
  NodeSummary :: NodeSummary

text \<open>
  The fields of a \<^verbatim>\<open>v1alpha1.Cluster\<close> that the controller reads or writes. Its field
  \<^verbatim>\<open>Status\<close> is named \<open>ClusterStatus\<close>, after its type: a condition has a field
  \<^verbatim>\<open>Status\<close> too.
\<close>

record Cluster =
  Name :: string
  DeletionTimestamp :: "Time option"
  Finalizers :: "string list"
  ClusterStatus :: ClusterStatus

text \<open>A \<^verbatim>\<open>controllerruntime.Result\<close>; \<^verbatim>\<open>Result{}\<close> is \<open>Result0\<close>.\<close>

record Result =
  Requeue :: bool
  RequeueAfter :: Duration

definition Result0 :: Result where
  "Result0 = \<lparr>Requeue = False, RequeueAfter = 0\<rparr>"

text \<open>The zero values of the status types (\<^verbatim>\<open>v1alpha1.ClusterStatus{}\<close>).\<close>

definition NodeSummary0 :: NodeSummary where
  "NodeSummary0 = \<lparr>TotalNum = 0, ReadyNum = 0, Allocatable = Map.empty, Used = Map.empty\<rparr>"

definition ClusterStatus0 :: ClusterStatus where
  "ClusterStatus0 =
     \<lparr>KubernetesVersion = [], APIEnablements = [], Conditions = [], NodeSummary = NodeSummary0\<rparr>"

subsection \<open>The health probe\<close>

text \<open>
  The member cluster's API server, as one health check sees it: the status code and
  the error that a GET on a path gives (\<^verbatim>\<open>healthEndpointCheck\<close> returns both).
\<close>

type_synonym KubeClient = "string \<Rightarrow> int \<times> error option"

definition healthEndpointCheck :: "KubeClient \<Rightarrow> string \<Rightarrow> int \<times> error option" where
  "healthEndpointCheck client path = client path"

text \<open>
  \<^verbatim>\<open>getClusterHealthStatus\<close> returns \<open>(online, healthy)\<close>; the model returns with it the
  paths that were requested, in order.
\<close>

definition getClusterHealthStatus :: "KubeClient \<Rightarrow> (bool \<times> bool) \<times> string list" where
  "getClusterHealthStatus client =
     (case healthEndpointCheck client ''/readyz'' of
        (healthStatus, err) \<Rightarrow>
          (case (if err \<noteq> None \<and> healthStatus = StatusNotFound
                 then (healthEndpointCheck client ''/healthz'', [''/readyz'', ''/healthz''])
                 else ((healthStatus, err), [''/readyz''])) of
             ((healthStatus, err), paths) \<Rightarrow>
               if err \<noteq> None then ((False, False), paths)
               else if healthStatus \<noteq> StatusOK then ((True, False), paths)
               else ((True, True), paths)))"

subsection \<open>The Ready condition\<close>

text \<open>\<^verbatim>\<open>generateReadyCondition\<close>; \<open>currentTime\<close> is what \<^verbatim>\<open>metav1.Now()\<close> returns.\<close>

definition newClusterOfflineCondition :: "Time \<Rightarrow> Condition" where
  "newClusterOfflineCondition currentTime =
     \<lparr>Type = ClusterConditionReady, Status = ConditionFalse, ObservedGeneration = 0,
      LastTransitionTime = currentTime, Reason = clusterNotReachableReason,
      Message = clusterNotReachableMsg\<rparr>"

definition newClusterReadyCondition :: "Time \<Rightarrow> Condition" where
  "newClusterReadyCondition currentTime =
     \<lparr>Type = ClusterConditionReady, Status = ConditionTrue, ObservedGeneration = 0,
      LastTransitionTime = currentTime, Reason = clusterReady, Message = clusterHealthy\<rparr>"

definition newClusterNotReadyCondition :: "Time \<Rightarrow> Condition" where
  "newClusterNotReadyCondition currentTime =
     \<lparr>Type = ClusterConditionReady, Status = ConditionFalse, ObservedGeneration = 0,
      LastTransitionTime = currentTime, Reason = clusterNotReady, Message = clusterUnhealthy\<rparr>"

definition generateReadyCondition :: "Time \<Rightarrow> bool \<Rightarrow> bool \<Rightarrow> Condition list" where
  "generateReadyCondition currentTime online healthy =
     (if \<not> online then [] @ [newClusterOfflineCondition currentTime]
      else if \<not> healthy then [] @ [newClusterNotReadyCondition currentTime]
      else [] @ [newClusterReadyCondition currentTime])"

text \<open>
  Modelled from the spec: \<^verbatim>\<open>util.IsClusterReady\<close> is defined in \<^verbatim>\<open>pkg/util\<close>. The
  classification of a status is ready when it holds a condition of type "Ready" with
  status true, and not-ready otherwise (also when it holds no condition).
\<close>

fun IsClusterReady_conditions :: "Condition list \<Rightarrow> bool" where
  "IsClusterReady_conditions [] = False"
| "IsClusterReady_conditions (condition # rest) =
     (if Type condition = ClusterConditionReady
      then (if Status condition = ConditionTrue then True else IsClusterReady_conditions rest)
      else IsClusterReady_conditions rest)"

definition IsClusterReady :: "ClusterStatus \<Rightarrow> bool" where
  "IsClusterReady clusterStatus = IsClusterReady_conditions (Conditions clusterStatus)"

text \<open>\<^verbatim>\<open>setTransitionTime\<close> changes the new status in place; the model returns it.\<close>

definition setTransitionTime :: "ClusterStatus \<Rightarrow> ClusterStatus \<Rightarrow> ClusterStatus" where
  "setTransitionTime oldClusterStatus newClusterStatus =
     (if IsClusterReady oldClusterStatus = IsClusterReady newClusterStatus
      then (if length (Conditions oldClusterStatus) \<noteq> 0
            then newClusterStatus
                   \<lparr>Conditions :=
                      map (\<lambda>c. c\<lparr>LastTransitionTime :=
                                   LastTransitionTime (Conditions oldClusterStatus ! 0)\<rparr>)
                          (Conditions newClusterStatus)\<rparr>
            else newClusterStatus)
      else newClusterStatus)"

subsection \<open>Resource aggregation\<close>

text \<open>
  The fields of nodes, pods and containers that the controller reads. The status of a
  node and of a pod is flattened into the node and the pod, and the requests of a
  container into the container; the fields \<^verbatim>\<open>Type\<close>, \<^verbatim>\<open>Status\<close>, \<^verbatim>\<open>Conditions\<close> and
  \<^verbatim>\<open>Allocatable\<close> carry the name of their owner in front.
\<close>

record NodeCondition =
  NodeConditionType :: string
  NodeConditionStatus :: string

record Node =
  NodeConditions :: "NodeCondition list"
  NodeAllocatable :: ResourceList

record PodCondition =
  PodConditionType :: string
  PodConditionStatus :: string

record Container =
  Requests :: ResourceList

record Pod =
  Phase :: string
  PodConditions :: "PodCondition list"
  Containers :: "Container list"

fun getReadyStatusForNode :: "NodeCondition list \<Rightarrow> bool" where
  "getReadyStatusForNode [] = False"
| "getReadyStatusForNode (condition # rest) =
     (if NodeConditionType condition = ''Ready''
      then (if NodeConditionStatus condition = ''True'' then True
            else getReadyStatusForNode rest)
      else getReadyStatusForNode rest)"

text \<open>
  The body of the inner loop of \<^verbatim>\<open>getClusterAllocatable\<close> reads and writes the entry of
  the current key only, and a Go map holds a key once: one node's entries are merged
  into the total key by key.
\<close>

definition addNodeAllocatable :: "ResourceList \<Rightarrow> Node \<Rightarrow> ResourceList" where
  "addNodeAllocatable allocatable node =
     (\<lambda>key. case NodeAllocatable node key of
               None \<Rightarrow> allocatable key
             | Some val \<Rightarrow>
                 Some (case allocatable key of
                         Some tmpCap \<Rightarrow> Add tmpCap val
                       | None \<Rightarrow> val))"

definition getClusterAllocatable :: "Node list \<Rightarrow> ResourceList" where
  "getClusterAllocatable nodeList = foldl addNodeAllocatable Map.empty nodeList"

record requestResource =
  MilliCPU :: int64
  Memory :: int64

definition requestResource0 :: requestResource where
  "requestResource0 = \<lparr>MilliCPU = 0, Memory = 0\<rparr>"

text \<open>
  \<^verbatim>\<open>addResource\<close>: of the entries of the map, the one named cpu and the one named memory
  are added. The receiver is the address of a local variable of the only caller, so
  the branch for a nil receiver is never taken.
\<close>

definition addResource :: "requestResource \<Rightarrow> ResourceList \<Rightarrow> requestResource" where
  "addResource r rl =
     \<lparr>MilliCPU = (case rl ResourceCPU of
                    Some rQuant \<Rightarrow> MilliCPU r + MilliValue rQuant
                  | None \<Rightarrow> MilliCPU r),
      Memory = (case rl ResourceMemory of
                  Some rQuant \<Rightarrow> Memory r + Value rQuant
                | None \<Rightarrow> Memory r)\<rparr>"

definition calculateResource :: "Pod \<Rightarrow> requestResource" where
  "calculateResource pod =
     foldl (\<lambda>res c. addResource res (Requests c)) requestResource0 (Containers pod)"

definition addPodRequestResource :: "Pod \<Rightarrow> requestResource" where
  "addPodRequestResource pod = calculateResource pod"

text \<open>The two loops of \<^verbatim>\<open>getUsedResource\<close>, over the conditions of a pod and over the pods.\<close>

fun usedByConditions :: "Pod \<Rightarrow> PodCondition list \<Rightarrow> int64 \<times> int64 \<Rightarrow> int64 \<times> int64" where
  "usedByConditions pod [] acc = acc"
| "usedByConditions pod (c # rest) (requestCPU, requestMem) =
     (if PodConditionType c = ''Ready'' \<and> PodConditionStatus c = ''True''
      then usedByConditions pod rest
             (requestCPU + MilliCPU (addPodRequestResource pod),
              requestMem + Memory (addPodRequestResource pod))
      else usedByConditions pod rest (requestCPU, requestMem))"

fun usedByPods :: "Pod list \<Rightarrow> int64 \<times> int64 \<Rightarrow> int64 \<times> int64" where
  "usedByPods [] acc = acc"
| "usedByPods (pod # rest) acc =
     (if Phase pod = ''Running''
      then usedByPods rest (usedByConditions pod (PodConditions pod) acc)
      else usedByPods rest acc)"

definition getUsedResource :: "Pod list \<Rightarrow> ResourceList" where
  "getUsedResource podList =
     (case usedByPods podList (0, 0) of
        (requestCPU, requestMem) \<Rightarrow>
          [ResourceCPU \<mapsto> NewMilliQuantity requestCPU DecimalSI,
           ResourceMemory \<mapsto> NewQuantity requestMem BinarySI])"

subsection \<open>The member cluster and the control plane\<close>

record APIResourceList =
  ListGroupVersion :: string
  APIResources :: "string list"

text \<open>
  What the member cluster answers during one reconciliation: \<open>Health k\<close> is the API
  server as the health check number \<open>k\<close> of the reconciliation sees it, the other fields
  are the answers of the discovery and list calls (\<open>Inl\<close> is the error). How long the
  health checks take decides how many ticks of the retry find the controller waiting:
  \<open>DeliveredTicks\<close> is that number.
\<close>

record ClusterClient =
  Health :: "nat \<Rightarrow> KubeClient"
  DeliveredTicks :: nat
  ServerVersion :: "error + string"
  ServerGroupsAndResources :: "error + APIResourceList list"
  NodesList :: "error + Node list"
  PodsList :: "error + Pod list"

text \<open>The calls of one reconciliation, in the order they are made.\<close>

datatype call =
  HealthCall string
| ServerVersionCall
| ServerGroupsAndResourcesCall
| NodesListCall
| PodsListCall
| StatusUpdateCall Cluster

text \<open>The control plane's client: loading a cluster by name, and the status update.\<close>

record Client =
  Get :: "string \<Rightarrow> error + Cluster"
  StatusUpdate :: "Cluster \<Rightarrow> error option"

record ClusterStatusController =
  Client :: Client
  ClusterClientSetFunc :: "Cluster \<Rightarrow> error + ClusterClient"
  ClusterStatusUpdateFrequency :: Duration

text \<open>What a reconciliation returns, with the calls it made.\<close>

record Outcome =
  result :: Result
  err :: "error option"
  calls :: "call list"

definition getKubernetesVersion :: "ClusterClient \<Rightarrow> string \<times> error option" where
  "getKubernetesVersion clusterClient =
     (case ServerVersion clusterClient of
        Inl e \<Rightarrow> ([], Some e)
      | Inr gitVersion \<Rightarrow> (gitVersion, None))"

definition getAPIEnablements :: "ClusterClient \<Rightarrow> APIEnablement list \<times> error option" where
  "getAPIEnablements clusterClient =
     (case ServerGroupsAndResources clusterClient of
        Inl e \<Rightarrow> ([], Some e)
      | Inr apiResourceList \<Rightarrow>
          (map (\<lambda>list. \<lparr>GroupVersion = ListGroupVersion list, Resources = APIResources list\<rparr>)
               apiResourceList,
           None))"

fun countReady :: "Node list \<Rightarrow> nat \<Rightarrow> nat" where
  "countReady [] readyNum = readyNum"
| "countReady (node # rest) readyNum =
     (if getReadyStatusForNode (NodeConditions node)
      then countReady rest (readyNum + 1)
      else countReady rest readyNum)"

definition getNodeSummary :: "ClusterClient \<Rightarrow> (NodeSummary \<times> error option) \<times> call list" where
  "getNodeSummary clusterClient =
     (case NodesList clusterClient of
        Inl e \<Rightarrow> ((NodeSummary0, Some e), [NodesListCall])
      | Inr nodeList \<Rightarrow>
          (case PodsList clusterClient of
             Inl e \<Rightarrow> ((NodeSummary0, Some e), [NodesListCall, PodsListCall])
           | Inr podList \<Rightarrow>
               ((\<lparr>TotalNum = length nodeList,
                  ReadyNum = countReady nodeList 0,
                  Allocatable = getClusterAllocatable nodeList,
                  Used = getUsedResource podList\<rparr>, None),
                [NodesListCall, PodsListCall])))"

subsection \<open>The conditional write\<close>

text \<open>
  \<^verbatim>\<open>equality.Semantic.DeepEqual\<close> on two statuses: quantities are equal when their
  amounts are (\<^verbatim>\<open>Cmp\<close>), whatever their formats; an empty and a nil slice or map are
  equal (lists and maps of the model do not tell them apart); times are equal as
  instants; everything else is compared field by field.
\<close>

definition Quantity_equal :: "Quantity \<Rightarrow> Quantity \<Rightarrow> bool" where
  "Quantity_equal a b = (millis a = millis b)"

definition ResourceList_equal :: "ResourceList \<Rightarrow> ResourceList \<Rightarrow> bool" where
  "ResourceList_equal a b = (\<forall>key. rel_option Quantity_equal (a key) (b key))"

definition NodeSummary_equal :: "NodeSummary \<Rightarrow> NodeSummary \<Rightarrow> bool" where
  "NodeSummary_equal a b =
     (TotalNum a = TotalNum b \<and> ReadyNum a = ReadyNum b \<and>
      ResourceList_equal (Allocatable a) (Allocatable b) \<and>
      ResourceList_equal (Used a) (Used b))"

definition Semantic_DeepEqual :: "ClusterStatus \<Rightarrow> ClusterStatus \<Rightarrow> bool" where
  "Semantic_DeepEqual a b =
     (KubernetesVersion a = KubernetesVersion b \<and>
      APIEnablements a = APIEnablements b \<and>
      Conditions a = Conditions b \<and>
      NodeSummary_equal (NodeSummary a) (NodeSummary b))"

text \<open>\<^verbatim>\<open>updateStatusIfNeeded\<close>; \<open>done\<close> are the calls made before it.\<close>

definition updateStatusIfNeeded ::
  "ClusterStatusController \<Rightarrow> Cluster \<Rightarrow> ClusterStatus \<Rightarrow> call list \<Rightarrow> Outcome" where
  "updateStatusIfNeeded c cluster currentClusterStatus done =
     (if \<not> Semantic_DeepEqual (ClusterStatus cluster) currentClusterStatus
      then (case StatusUpdate (Client c) (cluster\<lparr>ClusterStatus := currentClusterStatus\<rparr>) of
              Some e \<Rightarrow>
                \<lparr>result = Result0\<lparr>Requeue := True\<rparr>, err = Some e,
                 calls = done @ [StatusUpdateCall (cluster\<lparr>ClusterStatus := currentClusterStatus\<rparr>)]\<rparr>
            | None \<Rightarrow>
                \<lparr>result = Result0\<lparr>RequeueAfter := ClusterStatusUpdateFrequency c\<rparr>, err = None,
                 calls = done @ [StatusUpdateCall (cluster\<lparr>ClusterStatus := currentClusterStatus\<rparr>)]\<rparr>)
      else \<lparr>result = Result0\<lparr>RequeueAfter := ClusterStatusUpdateFrequency c\<rparr>, err = None,
            calls = done\<rparr>)"

subsection \<open>The bounded retry\<close>

text \<open>
  \<^verbatim>\<open>wait.Poll(interval, timeout, condition)\<close> of the Kubernetes library starts a ticker
  with the interval and a timer with the timeout; a tick is handed to the waiting
  loop when the loop is waiting and is dropped while the condition runs; when the
  timer fires, the channel of the ticks is closed. The waiting loop runs the condition
  at every tick it receives and once more when it finds the channel closed; an error
  of the condition ends it with that error, a condition that holds ends it with nil,
  and a condition that does not hold at the closed channel ends it with
  \<^verbatim>\<open>ErrWaitTimeout\<close>. The condition reads and writes variables of its caller: it is a
  function on a state \<open>'s\<close>.

  \<open>pollLoop n\<close> is the waiting loop when \<open>n\<close> more ticks will be received before the
  channel is closed.
\<close>

fun pollLoop ::
  "nat \<Rightarrow> ('s \<Rightarrow> (bool \<times> error option) \<times> 's) \<Rightarrow> 's \<Rightarrow> error option \<times> 's" where
  "pollLoop 0 condition s =
     (case condition s of
        ((ok, Some e), s') \<Rightarrow> (Some e, s')
      | ((True, None), s') \<Rightarrow> (None, s')
      | ((False, None), s') \<Rightarrow> (Some ErrWaitTimeout, s'))"
| "pollLoop (Suc n) condition s =
     (case condition s of
        ((ok, Some e), s') \<Rightarrow> (Some e, s')
      | ((True, None), s') \<Rightarrow> (None, s')
      | ((False, None), s') \<Rightarrow> pollLoop n condition s')"

text \<open>
  How many ticks the loop receives is not fixed by the interval and the timeout: it
  depends on how long the runs of the condition take, and on which of the ticker and
  the timer is served first when both are due. The model takes the number from the
  environment (\<open>delivered\<close>). The clock bounds it: the ticks are one interval apart and
  the channel is closed at the timeout, so no more than \<open>timeout div interval\<close> ticks
  are received. The model is for a positive interval and a positive timeout, which is
  what the controller passes (the library polls without a deadline when the timeout
  is zero).
\<close>

definition wait_Poll ::
  "Duration \<Rightarrow> Duration \<Rightarrow> nat \<Rightarrow> ('s \<Rightarrow> (bool \<times> error option) \<times> 's) \<Rightarrow> 's
     \<Rightarrow> error option \<times> 's" where
  "wait_Poll interval timeout delivered condition s =
     pollLoop (min delivered (timeout div interval)) condition s"

text \<open>
  The variables that the retry closure of \<^verbatim>\<open>syncClusterStatus\<close> shares with it:
  \<open>online\<close>, \<open>healthy\<close>, and with them the number of health checks made so far and the
  calls made so far.
\<close>

type_synonym probeState = "bool \<times> bool \<times> nat \<times> call list"

definition healthCheck :: "ClusterClient \<Rightarrow> nat \<Rightarrow> call list \<Rightarrow> probeState" where
  "healthCheck clusterClient k done =
     (case getClusterHealthStatus (Health clusterClient k) of
        ((online, healthy), paths) \<Rightarrow> (online, healthy, Suc k, done @ map HealthCall paths))"

definition retryCondition :: "ClusterClient \<Rightarrow> probeState \<Rightarrow> (bool \<times> error option) \<times> probeState" where
  "retryCondition clusterClient s =
     (case s of (_, _, k, done) \<Rightarrow>
        (case healthCheck clusterClient k done of
           (online, healthy, k', done') \<Rightarrow>
             if \<not> online then ((False, None), (online, healthy, k', done'))
             else ((True, None), (online, healthy, k', done'))))"

subsection \<open>The status-sync pipeline\<close>

text \<open>
  The part of \<^verbatim>\<open>syncClusterStatus\<close> after the health checks: the server version, the
  installed APIs and the node summary are read, each error ends the reconciliation,
  and the assembled status goes to the conditional write.
\<close>

definition syncOnline ::
  "ClusterStatusController \<Rightarrow> Time \<Rightarrow> Cluster \<Rightarrow> ClusterClient \<Rightarrow> bool \<Rightarrow> bool \<Rightarrow> call list
     \<Rightarrow> Outcome" where
  "syncOnline c now cluster clusterClient online healthy done =
     (case getKubernetesVersion clusterClient of
        (_, Some e) \<Rightarrow>
          \<lparr>result = Result0\<lparr>Requeue := True\<rparr>, err = Some e,
           calls = done @ [ServerVersionCall]\<rparr>
      | (clusterVersion, None) \<Rightarrow>
          (case getAPIEnablements clusterClient of
             (_, Some e) \<Rightarrow>
               \<lparr>result = Result0\<lparr>Requeue := True\<rparr>, err = Some e,
                calls = done @ [ServerVersionCall, ServerGroupsAndResourcesCall]\<rparr>
           | (apiEnables, None) \<Rightarrow>
               (case getNodeSummary clusterClient of
                  ((_, Some e), listCalls) \<Rightarrow>
                    \<lparr>result = Result0\<lparr>Requeue := True\<rparr>, err = Some e,
                     calls = done @ [ServerVersionCall, ServerGroupsAndResourcesCall] @ listCalls\<rparr>
                | ((nodeSummary, None), listCalls) \<Rightarrow>
                    updateStatusIfNeeded c cluster
                      ((setTransitionTime (ClusterStatus cluster)
                          (ClusterStatus0\<lparr>Conditions := generateReadyCondition now online healthy\<rparr>))
                         \<lparr>KubernetesVersion := clusterVersion,
                          APIEnablements := apiEnables,
                          NodeSummary := nodeSummary\<rparr>)
                      (done @ [ServerVersionCall, ServerGroupsAndResourcesCall] @ listCalls))))"

text \<open>The branch taken when the retry has timed out.\<close>

definition syncOffline ::
  "ClusterStatusController \<Rightarrow> Time \<Rightarrow> Cluster \<Rightarrow> call list \<Rightarrow> Outcome" where
  "syncOffline c now cluster done =
     updateStatusIfNeeded c cluster
       (setTransitionTime (ClusterStatus cluster)
          (ClusterStatus0\<lparr>Conditions := generateReadyCondition now False False\<rparr>))
       done"

text \<open>
  The health checks of \<^verbatim>\<open>syncClusterStatus\<close>: the first one and, when it reports the
  cluster offline, the retry. The error is that of \<^verbatim>\<open>wait.Poll\<close>; there is none when
  no retry was made.
\<close>

definition probePhase :: "ClusterClient \<Rightarrow> error option \<times> probeState" where
  "probePhase clusterClient =
     (case healthCheck clusterClient 0 [] of
        (online, healthy, k, done) \<Rightarrow>
          if \<not> online
          then wait_Poll clusterStatusRetryInterval clusterStatusRetryTimeout
                 (DeliveredTicks clusterClient)
                 (retryCondition clusterClient) (online, healthy, k, done)
          else (None, (online, healthy, k, done)))"

text \<open>\<^verbatim>\<open>syncClusterStatus\<close>; \<open>now\<close> is the reading of the clock in this reconciliation.\<close>

definition syncClusterStatus :: "ClusterStatusController \<Rightarrow> Time \<Rightarrow> Cluster \<Rightarrow> Outcome" where
  "syncClusterStatus c now cluster =
     (case ClusterClientSetFunc c cluster of
        Inl e \<Rightarrow> \<lparr>result = Result0\<lparr>Requeue := True\<rparr>, err = Some e, calls = []\<rparr>
      | Inr clusterClient \<Rightarrow>
          (case probePhase clusterClient of
             (Some e, (_, _, _, done)) \<Rightarrow> syncOffline c now cluster done
           | (None, (online, healthy, _, done)) \<Rightarrow>
               syncOnline c now cluster clusterClient online healthy done))"

subsection \<open>Reconcile\<close>

text \<open>
  \<^verbatim>\<open>Reconcile\<close>. The name of the finalizer, \<^verbatim>\<open>util.ClusterControllerFinalizer\<close>, is
  declared in \<^verbatim>\<open>pkg/util\<close> and is a parameter here. \<^verbatim>\<open>ContainsFinalizer\<close> looks the
  name up in the finalizers of the object.
\<close>

definition ContainsFinalizer :: "Cluster \<Rightarrow> string \<Rightarrow> bool" where
  "ContainsFinalizer cluster finalizer = (finalizer \<in> set (Finalizers cluster))"

definition Reconcile :: "ClusterStatusController \<Rightarrow> string \<Rightarrow> Time \<Rightarrow> string \<Rightarrow> Outcome" where
  "Reconcile c ClusterControllerFinalizer now req =
     (case Get (Client c) req of
        Inl e \<Rightarrow>
          if IsNotFound e then \<lparr>result = Result0, err = None, calls = []\<rparr>
          else \<lparr>result = Result0\<lparr>Requeue := True\<rparr>, err = Some e, calls = []\<rparr>
      | Inr cluster \<Rightarrow>
          if \<not> IsZero (DeletionTimestamp cluster)
          then \<lparr>result = Result0, err = None, calls = []\<rparr>
          else if \<not> ContainsFinalizer cluster ClusterControllerFinalizer
          then \<lparr>result = Result0\<lparr>Requeue := True\<rparr>, err = None, calls = []\<rparr>
          else syncClusterStatus c now cluster)"

subsection \<open>The stored status over a sequence of reconciliations\<close>

text \<open>
  The control plane keeps the status handed to a status update that succeeds. The
  stored object after one reconciliation of a stored object, and after a sequence of
  reconciliations, each with its own answers of the environment and its own clock.
\<close>

fun stored :: "ClusterStatusController \<Rightarrow> call list \<Rightarrow> Cluster \<Rightarrow> Cluster" where
  "stored c [] cluster = cluster"
| "stored c (StatusUpdateCall obj # rest) cluster =
     (if StatusUpdate (Client c) obj = None then stored c rest obj else stored c rest cluster)"
| "stored c (_ # rest) cluster = stored c rest cluster"

definition statusWrites :: "call list \<Rightarrow> Cluster list" where
  "statusWrites cs = concat (map (\<lambda>x. case x of StatusUpdateCall obj \<Rightarrow> [obj] | _ \<Rightarrow> []) cs)"

text \<open>
  The classification that the health checks of a reconciliation arrive at: ready when
  they end without a timeout, online and healthy.
\<close>

definition observedReady :: "ClusterClient \<Rightarrow> bool" where
  "observedReady clusterClient =
     (case probePhase clusterClient of
        (e, (online, healthy, _, _)) \<Rightarrow> e = None \<and> online \<and> healthy)"

text \<open>
  The number of ticks that the retry of a reconciliation receives, and the calls of
  the health checks number \<open>a\<close> up to \<open>b - 1\<close>, in order.
\<close>

definition retryTicks :: "ClusterClient \<Rightarrow> nat" where
  "retryTicks clusterClient =
     min (DeliveredTicks clusterClient)
       (clusterStatusRetryTimeout div clusterStatusRetryInterval)"

definition healthCalls :: "ClusterClient \<Rightarrow> nat \<Rightarrow> nat \<Rightarrow> call list" where
  "healthCalls clusterClient a b =
     concat (map (\<lambda>k. map HealthCall (snd (getClusterHealthStatus (Health clusterClient k))))
               [a..<b])"

definition reconcileStored :: "ClusterStatusController \<Rightarrow> Time \<Rightarrow> Cluster \<Rightarrow> Cluster" where
  "reconcileStored c now cluster = stored c (calls (syncClusterStatus c now cluster)) cluster"

fun reconcileAll :: "(ClusterStatusController \<times> Time) list \<Rightarrow> Cluster \<Rightarrow> Cluster" where
  "reconcileAll [] cluster = cluster"
| "reconcileAll ((c, now) # rest) cluster = reconcileAll rest (reconcileStored c now cluster)"

section \<open>Example inputs\<close>

text \<open>An API server that answers every health check with an error of status 500.\<close>

definition unhealthyServer :: KubeClient where
  "unhealthyServer path =
     (500, Some (Failure ''the server is currently unable to handle the request''))"

text \<open>An API server that answers every health check with status 200.\<close>

definition okServer :: KubeClient where
  "okServer path = (200, None)"

text \<open>An API server without \<^verbatim>\<open>/readyz\<close>, whose \<^verbatim>\<open>/healthz\<close> answers with status 200.\<close>

definition legacyServer :: KubeClient where
  "legacyServer path = (if path = ''/readyz'' then (404, Some NotFound) else (200, None))"

text \<open>An API server that cannot be reached.\<close>

definition offlineServer :: KubeClient where
  "offlineServer path = (0, Some (Failure ''connection refused''))"

text \<open>A member cluster that stays unreachable, and one that is healthy and empty.\<close>

definition offlineMember :: ClusterClient where
  "offlineMember =
     \<lparr>Health = (\<lambda>k. offlineServer),
      DeliveredTicks = 4,
      ServerVersion = Inl (Failure ''connection refused''),
      ServerGroupsAndResources = Inl (Failure ''connection refused''),
      NodesList = Inl (Failure ''connection refused''),
      PodsList = Inl (Failure ''connection refused'')\<rparr>"

definition healthyMember :: ClusterClient where
  "healthyMember =
     \<lparr>Health = (\<lambda>k. okServer),
      DeliveredTicks = 3,
      ServerVersion = Inr ''v1.19.1'',
      ServerGroupsAndResources = Inr [\<lparr>ListGroupVersion = ''v1'', APIResources = [''pods'']\<rparr>],
      NodesList = Inr [],
      PodsList = Inr []\<rparr>"

text \<open>
  A member cluster that is unreachable at the first two health checks of a
  reconciliation and healthy from the third on.
\<close>

definition recoveringServers :: "nat \<Rightarrow> KubeClient" where
  "recoveringServers k = (if k < 2 then offlineServer else okServer)"

definition recoveringMember :: ClusterClient where
  "recoveringMember =
     \<lparr>Health = recoveringServers,
      DeliveredTicks = 2,
      ServerVersion = Inr ''v1.19.1'',
      ServerGroupsAndResources = Inr [],
      NodesList = Inr [],
      PodsList = Inr []\<rparr>"

text \<open>A control plane whose status updates succeed, and a controller for a member.\<close>

definition memberStatus :: ClusterStatus where
  "memberStatus =
     \<lparr>KubernetesVersion = ''v1.19.1'',
      APIEnablements = [\<lparr>GroupVersion = ''v1'', Resources = [''pods'']\<rparr>],
      Conditions = [newClusterReadyCondition 40],
      NodeSummary = NodeSummary0\<rparr>"

definition member1 :: Cluster where
  "member1 =
     \<lparr>Name = ''member1'', DeletionTimestamp = None,
      Finalizers = [''karmada.io/cluster-controller''], ClusterStatus = memberStatus\<rparr>"

definition controlPlane :: Client where
  "controlPlane =
     \<lparr>Get = (\<lambda>name. if name = ''member1'' then Inr member1 else Inl NotFound),
      StatusUpdate = (\<lambda>obj. None)\<rparr>"

definition controllerFor :: "ClusterClient \<Rightarrow> ClusterStatusController" where
  "controllerFor clusterClient =
     \<lparr>Client = controlPlane, ClusterClientSetFunc = (\<lambda>cluster. Inr clusterClient),
      ClusterStatusUpdateFrequency = 10000\<rparr>"

text \<open>
  Two nodes: one ready, with 4000m of CPU and 8Gi of memory allocatable; one without a
  Ready condition, with 2000m and 4Gi.
\<close>

definition nodeA :: Node where
  "nodeA =
     \<lparr>NodeConditions = [\<lparr>NodeConditionType = ''Ready'', NodeConditionStatus = ''True''\<rparr>],
      NodeAllocatable = [''cpu'' \<mapsto> \<lparr>millis = 4000, format = DecimalSI\<rparr>,
                         ''memory'' \<mapsto> \<lparr>millis = 8589934592000, format = BinarySI\<rparr>]\<rparr>"

definition nodeB :: Node where
  "nodeB =
     \<lparr>NodeConditions = [\<lparr>NodeConditionType = ''MemoryPressure'', NodeConditionStatus = ''False''\<rparr>],
      NodeAllocatable = [''cpu'' \<mapsto> \<lparr>millis = 2000, format = DecimalSI\<rparr>,
                         ''memory'' \<mapsto> \<lparr>millis = 4294967296000, format = BinarySI\<rparr>]\<rparr>"

text \<open>
  Three running pods, each with one container: two ready, requesting 500m and 128Mi,
  and 250m and 64Mi; one not ready, requesting 1000m and 1Gi.
\<close>

definition podA :: Pod where
  "podA =
     \<lparr>Phase = ''Running'',
      PodConditions = [\<lparr>PodConditionType = ''Ready'', PodConditionStatus = ''True''\<rparr>],
      Containers = [\<lparr>Requests = [''cpu'' \<mapsto> \<lparr>millis = 500, format = DecimalSI\<rparr>,
                                   ''memory'' \<mapsto> \<lparr>millis = 134217728000, format = BinarySI\<rparr>]\<rparr>]\<rparr>"

definition podB :: Pod where
  "podB =
     \<lparr>Phase = ''Running'',
      PodConditions = [\<lparr>PodConditionType = ''Ready'', PodConditionStatus = ''True''\<rparr>],
      Containers = [\<lparr>Requests = [''cpu'' \<mapsto> \<lparr>millis = 250, format = DecimalSI\<rparr>,
                                   ''memory'' \<mapsto> \<lparr>millis = 67108864000, format = BinarySI\<rparr>]\<rparr>]\<rparr>"

definition podC :: Pod where
  "podC =
     \<lparr>Phase = ''Running'',
      PodConditions = [\<lparr>PodConditionType = ''Ready'', PodConditionStatus = ''False''\<rparr>],
      Containers = [\<lparr>Requests = [''cpu'' \<mapsto> \<lparr>millis = 1000, format = DecimalSI\<rparr>,
                                   ''memory'' \<mapsto> \<lparr>millis = 1073741824000, format = BinarySI\<rparr>]\<rparr>]\<rparr>"

text \<open>
  A running pod whose status lists the condition Ready with value True twice, with
  one container requesting 500m and 128Mi.
\<close>

definition podTwiceReady :: Pod where
  "podTwiceReady =
     \<lparr>Phase = ''Running'',
      PodConditions = [\<lparr>PodConditionType = ''Ready'', PodConditionStatus = ''True''\<rparr>,
                       \<lparr>PodConditionType = ''Ready'', PodConditionStatus = ''True''\<rparr>],
      Containers = [\<lparr>Requests = [''cpu'' \<mapsto> \<lparr>millis = 500, format = DecimalSI\<rparr>,
                                   ''memory'' \<mapsto> \<lparr>millis = 134217728000, format = BinarySI\<rparr>]\<rparr>]\<rparr>"

definition twoNodeMember :: ClusterClient where
  "twoNodeMember =
     \<lparr>Health = (\<lambda>k. okServer),
      DeliveredTicks = 3,
      ServerVersion = Inr ''v1.19.1'',
      ServerGroupsAndResources = Inr [],
      NodesList = Inr [nodeA, nodeB],
      PodsList = Inr [podA, podB, podC]\<rparr>"

text \<open>The amount that a resource list holds under a key, zero when the key is absent.\<close>

definition amount :: "Quantity option \<Rightarrow> int" where
  "amount x = (case x of None \<Rightarrow> 0 | Some q \<Rightarrow> millis q)"


section \<open>Properties\<close>

subsection \<open>The health probe\<close>

text \<open>
  The outcome of \<^verbatim>\<open>getClusterHealthStatus\<close> in terms of the last check it made: an error
  gives (false, false), whatever the status code; no error and a status other than 200
  gives (true, false); no error and status 200 gives (true, true).
\<close>

lemma getClusterHealthStatus_outcome:
  "(snd (client (last (snd (getClusterHealthStatus client)))) \<noteq> None \<longrightarrow>
      fst (getClusterHealthStatus client) = (False, False)) \<and>
   (snd (client (last (snd (getClusterHealthStatus client)))) = None \<and>
    fst (client (last (snd (getClusterHealthStatus client)))) \<noteq> StatusOK \<longrightarrow>
      fst (getClusterHealthStatus client) = (True, False)) \<and>
   (snd (client (last (snd (getClusterHealthStatus client)))) = None \<and>
    fst (client (last (snd (getClusterHealthStatus client)))) = StatusOK \<longrightarrow>
      fst (getClusterHealthStatus client) = (True, True))"
  by (auto simp: getClusterHealthStatus_def healthEndpointCheck_def split: prod.splits if_splits)

text \<open>
  C3. A transport failure gives (online, healthy) = (false, false) and an answer with
  status 200 gives (true, true), but a reachable endpoint that answers with a
  non-success status does not give (true, false). The REST client hands an answer
  with an error status to the caller as the status code together with an error (the
  test for the fallback reads the status 404 next to a non-nil error), and
  \<^verbatim>\<open>getClusterHealthStatus\<close> tests the error before the status code: the branch for a
  status other than 200, which returns (true, false), is not reached. An API server
  that is reached and answers \<^verbatim>\<open>/readyz\<close> with status 500 is reported as
  (false, false), after the one request of \<^verbatim>\<open>/readyz\<close>.
\<close>

theorem getClusterHealthStatus_unhealthy_offline:
  "healthEndpointCheck unhealthyServer ''/readyz'' =
     (500, Some (Failure ''the server is currently unable to handle the request'')) \<and>
   snd (getClusterHealthStatus unhealthyServer) = [''/readyz''] \<and>
   fst (getClusterHealthStatus unhealthyServer) = (False, False) \<and>
   fst (getClusterHealthStatus unhealthyServer) \<noteq> (True, False)"
  by (simp add: getClusterHealthStatus_def healthEndpointCheck_def unhealthyServer_def
      StatusNotFound_def)

text \<open>
  C4. When the check of \<^verbatim>\<open>/readyz\<close> gives a not-found answer (an error with status 404),
  \<^verbatim>\<open>/healthz\<close> is requested next and its answer alone decides the outcome; when the
  check of \<^verbatim>\<open>/readyz\<close> gives any other status, \<^verbatim>\<open>/healthz\<close> is not requested.
\<close>

theorem getClusterHealthStatus_fallback:
  "(snd (client ''/readyz'') \<noteq> None \<and> fst (client ''/readyz'') = StatusNotFound \<longrightarrow>
      snd (getClusterHealthStatus client) = [''/readyz'', ''/healthz''] \<and>
      fst (getClusterHealthStatus client) =
        (if snd (client ''/healthz'') \<noteq> None then (False, False)
         else if fst (client ''/healthz'') \<noteq> StatusOK then (True, False)
         else (True, True))) \<and>
   (fst (client ''/readyz'') \<noteq> StatusNotFound \<longrightarrow>
      snd (getClusterHealthStatus client) = [''/readyz''])"
  by (auto simp: getClusterHealthStatus_def healthEndpointCheck_def split: prod.splits if_splits)

theorem getClusterHealthStatus_fallback_witness:
  "snd (legacyServer ''/readyz'') \<noteq> None \<and> fst (legacyServer ''/readyz'') = StatusNotFound \<and>
   snd (getClusterHealthStatus legacyServer) = [''/readyz'', ''/healthz''] \<and>
   fst (getClusterHealthStatus legacyServer) = (True, True) \<and>
   fst (okServer ''/readyz'') \<noteq> StatusNotFound \<and>
   snd (getClusterHealthStatus okServer) = [''/readyz'']"
proof -
  have h1: "snd (legacyServer ''/readyz'') \<noteq> None \<and> fst (legacyServer ''/readyz'') = StatusNotFound"
    by (simp add: legacyServer_def StatusNotFound_def)
  have h2: "fst (okServer ''/readyz'') \<noteq> StatusNotFound"
    by (simp add: okServer_def StatusNotFound_def)
  have h3: "legacyServer ''/healthz'' = (200, None)"
    by (simp add: legacyServer_def)
  from getClusterHealthStatus_fallback [of legacyServer] h1 h3
  have "snd (getClusterHealthStatus legacyServer) = [''/readyz'', ''/healthz''] \<and>
        fst (getClusterHealthStatus legacyServer) = (True, True)"
    by (simp add: StatusOK_def)
  moreover from getClusterHealthStatus_fallback [of okServer] h2
  have "snd (getClusterHealthStatus okServer) = [''/readyz'']" by blast
  ultimately show ?thesis using h1 h2 by blast
qed

subsection \<open>The calls of the health checks and of the pipeline\<close>

lemma healthCheck_calls:
  "healthCheck cc k done = (on, h, k', done') \<Longrightarrow> \<exists>ps. done' = done @ map HealthCall ps"
  by (auto simp: healthCheck_def split: prod.splits)

lemma retryCondition_calls:
  "retryCondition cc (on, h, k, done) = (r, (on', h', k', done')) \<Longrightarrow>
     \<exists>ps. done' = done @ map HealthCall ps"
  by (auto simp: retryCondition_def split: prod.splits if_splits dest: healthCheck_calls)

lemma retryCondition_result:
  "retryCondition cc s = ((ok, e), (on', h', k', done')) \<Longrightarrow> e = None \<and> ok = on'"
  by (auto simp: retryCondition_def split: prod.splits if_splits)

lemma retryCondition_eq:
  "retryCondition cc (on, h, k, done) =
     (case getClusterHealthStatus (Health cc k) of
        ((on', h'), paths) \<Rightarrow> ((on', None), (on', h', Suc k, done @ map HealthCall paths)))"
  by (simp add: retryCondition_def healthCheck_def split: prod.splits)

lemma pollLoop_calls:
  "pollLoop n (retryCondition cc) (on, h, k, done) = (e, (on', h', k', done')) \<Longrightarrow>
     \<exists>ps. done' = done @ map HealthCall ps"
proof (induction n arbitrary: on h k "done")
  case 0
  obtain on1 h1 ps1 where g: "getClusterHealthStatus (Health cc k) = ((on1, h1), ps1)"
    by (metis prod.exhaust)
  with 0 have "done' = done @ map HealthCall ps1"
    by (cases on1) (simp_all add: retryCondition_eq)
  then show ?case by blast
next
  case (Suc n)
  obtain on1 h1 ps1 where g: "getClusterHealthStatus (Health cc k) = ((on1, h1), ps1)"
    by (metis prod.exhaust)
  show ?case
  proof (cases on1)
    case True
    with Suc.prems g have "done' = done @ map HealthCall ps1"
      by (simp add: retryCondition_eq)
    then show ?thesis by blast
  next
    case False
    with Suc.prems g
    have "pollLoop n (retryCondition cc) (on1, h1, Suc k, done @ map HealthCall ps1) =
            (e, (on', h', k', done'))"
      by (simp add: retryCondition_eq)
    from Suc.IH[OF this] obtain ps2 where "done' = (done @ map HealthCall ps1) @ map HealthCall ps2"
      by blast
    then have "done' = done @ map HealthCall (ps1 @ ps2)" by simp
    then show ?thesis by blast
  qed
qed

lemma pollLoop_timeout:
  "pollLoop n (retryCondition cc) (on, h, k, done) = (Some e, s') \<Longrightarrow> e = ErrWaitTimeout"
proof (induction n arbitrary: on h k "done")
  case 0
  obtain on1 h1 ps1 where g: "getClusterHealthStatus (Health cc k) = ((on1, h1), ps1)"
    by (metis prod.exhaust)
  with 0 show ?case by (cases on1) (simp_all add: retryCondition_eq)
next
  case (Suc n)
  obtain on1 h1 ps1 where g: "getClusterHealthStatus (Health cc k) = ((on1, h1), ps1)"
    by (metis prod.exhaust)
  show ?case
  proof (cases on1)
    case True
    with Suc.prems g show ?thesis by (simp add: retryCondition_eq)
  next
    case False
    with Suc.prems g
    have "pollLoop n (retryCondition cc) (on1, h1, Suc k, done @ map HealthCall ps1) = (Some e, s')"
      by (simp add: retryCondition_eq)
    from Suc.IH[OF this] show ?thesis .
  qed
qed

lemma pollLoop_online:
  "pollLoop n (retryCondition cc) (on, h, k, done) = (None, (on', h', k', done')) \<Longrightarrow> on'"
proof (induction n arbitrary: on h k "done")
  case 0
  obtain on1 h1 ps1 where g: "getClusterHealthStatus (Health cc k) = ((on1, h1), ps1)"
    by (metis prod.exhaust)
  with 0 show ?case by (cases on1) (simp_all add: retryCondition_eq)
next
  case (Suc n)
  obtain on1 h1 ps1 where g: "getClusterHealthStatus (Health cc k) = ((on1, h1), ps1)"
    by (metis prod.exhaust)
  show ?case
  proof (cases on1)
    case True
    with Suc.prems g show ?thesis by (simp add: retryCondition_eq)
  next
    case False
    with Suc.prems g
    have "pollLoop n (retryCondition cc) (on1, h1, Suc k, done @ map HealthCall ps1) =
            (None, (on', h', k', done'))"
      by (simp add: retryCondition_eq)
    from Suc.IH[OF this] show ?thesis .
  qed
qed

lemma probePhase_calls:
  "probePhase cc = (e, (on, h, k, done)) \<Longrightarrow> \<exists>ps. done = map HealthCall ps"
proof -
  assume a: "probePhase cc = (e, (on, h, k, done))"
  obtain on0 h0 k0 done0 where hc: "healthCheck cc 0 [] = (on0, h0, k0, done0)"
    by (metis prod.exhaust)
  from healthCheck_calls[OF hc] obtain ps0 where d0: "done0 = map HealthCall ps0" by auto
  show ?thesis
  proof (cases on0)
    case True
    with a hc have "done = done0" by (simp add: probePhase_def)
    with d0 show ?thesis by blast
  next
    case False
    with a hc have "pollLoop (retryTicks cc) (retryCondition cc) (on0, h0, k0, done0) =
        (e, (on, h, k, done))"
      by (simp add: probePhase_def wait_Poll_def retryTicks_def)
    from pollLoop_calls[OF this] obtain ps where "done = done0 @ map HealthCall ps" by blast
    with d0 have "done = map HealthCall (ps0 @ ps)" by simp
    then show ?thesis by blast
  qed
qed

lemma probePhase_online:
  "probePhase cc = (None, (on, h, k, done)) \<Longrightarrow> on"
proof -
  assume a: "probePhase cc = (None, (on, h, k, done))"
  obtain on0 h0 k0 done0 where hc: "healthCheck cc 0 [] = (on0, h0, k0, done0)"
    by (metis prod.exhaust)
  show ?thesis
  proof (cases on0)
    case True
    with a hc show ?thesis by (simp add: probePhase_def)
  next
    case False
    with a hc have "pollLoop (retryTicks cc) (retryCondition cc) (on0, h0, k0, done0) =
        (None, (on, h, k, done))"
      by (simp add: probePhase_def wait_Poll_def retryTicks_def)
    from pollLoop_online[OF this] show ?thesis .
  qed
qed

lemma statusWrites_append: "statusWrites (xs @ ys) = statusWrites xs @ statusWrites ys"
  by (simp add: statusWrites_def)

lemma statusWrites_health: "statusWrites (map HealthCall ps) = []"
  by (induction ps) (simp_all add: statusWrites_def)

lemma stored_nowrites: "statusWrites xs = [] \<Longrightarrow> stored c (xs @ ys) cluster = stored c ys cluster"
proof (induction xs)
  case Nil
  then show ?case by simp
next
  case (Cons x xs)
  then show ?case by (cases x) (simp_all add: statusWrites_def)
qed

lemma stored_nowrites': "statusWrites xs = [] \<Longrightarrow> stored c xs cluster = cluster"
  using stored_nowrites[of xs c "[]" cluster] by simp

lemma updateStatusIfNeeded_calls:
  "calls (updateStatusIfNeeded c cluster cur done) =
     (if Semantic_DeepEqual (ClusterStatus cluster) cur then done
      else done @ [StatusUpdateCall (cluster\<lparr>ClusterStatus := cur\<rparr>)])"
  by (simp add: updateStatusIfNeeded_def split: option.splits)

lemma getNodeSummary_calls:
  "getNodeSummary cc = (r, cs) \<Longrightarrow> statusWrites cs = []"
  by (auto simp: getNodeSummary_def statusWrites_def split: sum.splits)

lemma sync_cases:
  assumes "ClusterClientSetFunc c cluster = Inr cc"
  obtains (offline) ps e k on h where
      "probePhase cc = (Some e, (on, h, k, map HealthCall ps))"
      "syncClusterStatus c now cluster = syncOffline c now cluster (map HealthCall ps)"
  | (online) ps h k where
      "probePhase cc = (None, (True, h, k, map HealthCall ps))"
      "syncClusterStatus c now cluster = syncOnline c now cluster cc True h (map HealthCall ps)"
proof -
  obtain e on h k "done" where p: "probePhase cc = (e, (on, h, k, done))"
    by (metis prod.exhaust)
  from probePhase_calls[OF p] obtain ps where d: "done = map HealthCall ps" by blast
  show thesis
  proof (cases e)
    case None
    with p probePhase_online have on: "on" by blast
    from None p d on assms have "syncClusterStatus c now cluster = syncOnline c now cluster cc True h (map HealthCall ps)"
      by (simp add: syncClusterStatus_def)
    moreover from None p d on have "probePhase cc = (None, (True, h, k, map HealthCall ps))" by simp
    ultimately show ?thesis by (rule online[rotated])
  next
    case (Some e')
    with p d assms have "syncClusterStatus c now cluster = syncOffline c now cluster (map HealthCall ps)"
      by (simp add: syncClusterStatus_def)
    moreover from Some p d have "probePhase cc = (Some e', (on, h, k, map HealthCall ps))" by simp
    ultimately show ?thesis by (rule offline[rotated])
  qed
qed

lemma syncOnline_cases:
  obtains (failed) e cs where
      "syncOnline c now cluster cc on h done =
         \<lparr>result = Result0\<lparr>Requeue := True\<rparr>, err = Some e, calls = done @ cs\<rparr>"
      "statusWrites cs = []"
  | (assembled) ver apis ns cs where
      "syncOnline c now cluster cc on h done =
         updateStatusIfNeeded c cluster
           ((setTransitionTime (ClusterStatus cluster)
               (ClusterStatus0\<lparr>Conditions := generateReadyCondition now on h\<rparr>))
              \<lparr>KubernetesVersion := ver, APIEnablements := apis, NodeSummary := ns\<rparr>)
           (done @ cs)"
      "statusWrites cs = []"
      "getKubernetesVersion cc = (ver, None)"
      "getAPIEnablements cc = (apis, None)"
      "fst (getNodeSummary cc) = (ns, None)"
proof -
  obtain ver e1 where v: "getKubernetesVersion cc = (ver, e1)" by (metis prod.exhaust)
  obtain apis e2 where a: "getAPIEnablements cc = (apis, e2)" by (metis prod.exhaust)
  obtain ns e3 lc where n: "getNodeSummary cc = ((ns, e3), lc)" by (metis prod.exhaust)
  from getNodeSummary_calls[OF n] have lc: "statusWrites lc = []" .
  show thesis
  proof (cases e1)
    case (Some e)
    with v have "syncOnline c now cluster cc on h done =
         \<lparr>result = Result0\<lparr>Requeue := True\<rparr>, err = Some e, calls = done @ [ServerVersionCall]\<rparr>"
      by (simp add: syncOnline_def)
    moreover have "statusWrites [ServerVersionCall] = []" by (simp add: statusWrites_def)
    ultimately show ?thesis by (rule failed)
  next
    case None
    note e1 = None
    show ?thesis
    proof (cases e2)
      case (Some e)
      with v a e1 have "syncOnline c now cluster cc on h done =
           \<lparr>result = Result0\<lparr>Requeue := True\<rparr>, err = Some e,
            calls = done @ [ServerVersionCall, ServerGroupsAndResourcesCall]\<rparr>"
        by (simp add: syncOnline_def)
      moreover have "statusWrites [ServerVersionCall, ServerGroupsAndResourcesCall] = []"
        by (simp add: statusWrites_def)
      ultimately show ?thesis by (rule failed)
    next
      case None
      note e2 = None
      have w: "statusWrites ([ServerVersionCall, ServerGroupsAndResourcesCall] @ lc) = []"
        using lc by (simp add: statusWrites_def)
      show ?thesis
      proof (cases e3)
        case (Some e)
        with v a n e1 e2 have "syncOnline c now cluster cc on h done =
             \<lparr>result = Result0\<lparr>Requeue := True\<rparr>, err = Some e,
              calls = done @ ([ServerVersionCall, ServerGroupsAndResourcesCall] @ lc)\<rparr>"
          by (simp add: syncOnline_def)
        then show ?thesis using w by (rule failed)
      next
        case None
        with v a n e1 e2 have "syncOnline c now cluster cc on h done =
         updateStatusIfNeeded c cluster
           ((setTransitionTime (ClusterStatus cluster)
               (ClusterStatus0\<lparr>Conditions := generateReadyCondition now on h\<rparr>))
              \<lparr>KubernetesVersion := ver, APIEnablements := apis, NodeSummary := ns\<rparr>)
           (done @ ([ServerVersionCall, ServerGroupsAndResourcesCall] @ lc))"
          by (simp add: syncOnline_def)
        moreover from n None have "fst (getNodeSummary cc) = (ns, None)" by simp
        ultimately show ?thesis using w v a e1 e2 by (auto intro: assembled)
      qed
    qed
  qed
qed

lemma IsClusterReady_generate:
  "IsClusterReady_conditions (generateReadyCondition now on h) = (on \<and> h)"
  by (simp add: generateReadyCondition_def newClusterOfflineCondition_def
      newClusterNotReadyCondition_def newClusterReadyCondition_def
      ClusterConditionReady_def ConditionTrue_def ConditionFalse_def)

lemma IsClusterReady_conditions_time:
  "IsClusterReady_conditions (map (\<lambda>c. c\<lparr>LastTransitionTime := t\<rparr>) cs) = IsClusterReady_conditions cs"
  by (induction cs) simp_all

lemma Conditions_setTransitionTime:
  "Conditions (setTransitionTime old new) =
     (if IsClusterReady old = IsClusterReady new \<and> Conditions old \<noteq> []
      then map (\<lambda>c. c\<lparr>LastTransitionTime := LastTransitionTime (hd (Conditions old))\<rparr>) (Conditions new)
      else Conditions new)"
  by (simp add: setTransitionTime_def hd_conv_nth)

lemma setTransitionTime_others:
  "KubernetesVersion (setTransitionTime old new) = KubernetesVersion new \<and>
   APIEnablements (setTransitionTime old new) = APIEnablements new \<and>
   NodeSummary (setTransitionTime old new) = NodeSummary new"
  by (simp add: setTransitionTime_def)

lemma length_generate: "length (generateReadyCondition now on h) = 1"
  by (simp add: generateReadyCondition_def)

lemma length_candidate:
  "length (Conditions (setTransitionTime old (ClusterStatus0\<lparr>Conditions := generateReadyCondition now on h\<rparr>))) = 1"
  by (simp add: Conditions_setTransitionTime length_generate)

lemma statusWrites_updateStatusIfNeeded:
  "statusWrites done = [] \<Longrightarrow>
   statusWrites (calls (updateStatusIfNeeded c cluster cur done)) =
     (if Semantic_DeepEqual (ClusterStatus cluster) cur then []
      else [cluster\<lparr>ClusterStatus := cur\<rparr>])"
  by (simp add: updateStatusIfNeeded_calls statusWrites_append) (simp add: statusWrites_def)

lemma syncOffline_writes:
  "statusWrites (calls (syncOffline c now cluster (map HealthCall ps))) =
     (if Semantic_DeepEqual (ClusterStatus cluster)
          (setTransitionTime (ClusterStatus cluster)
             (ClusterStatus0\<lparr>Conditions := generateReadyCondition now False False\<rparr>))
      then []
      else [cluster\<lparr>ClusterStatus := setTransitionTime (ClusterStatus cluster)
             (ClusterStatus0\<lparr>Conditions := generateReadyCondition now False False\<rparr>)\<rparr>])"
  unfolding syncOffline_def
  by (rule statusWrites_updateStatusIfNeeded) (rule statusWrites_health)

lemma syncOnline_writes_length:
  assumes "obj \<in> set (statusWrites (calls (syncOnline c now cluster cc on h (map HealthCall ps))))"
  shows "length (Conditions (ClusterStatus obj)) = 1"
proof (cases rule: syncOnline_cases[of c now cluster cc on h "map HealthCall ps"])
  case (failed e cs)
  with assms show ?thesis by (simp add: statusWrites_append statusWrites_health)
next
  case (assembled ver apis ns cs)
  have "statusWrites (map HealthCall ps @ cs) = []"
    using assembled(2) by (simp add: statusWrites_append statusWrites_health)
  from statusWrites_updateStatusIfNeeded[OF this] assms assembled(1)
  show ?thesis by (simp add: length_candidate split: if_splits)
qed

lemma sync_writes_length:
  assumes "obj \<in> set (statusWrites (calls (syncClusterStatus c now cluster)))"
  shows "length (Conditions (ClusterStatus obj)) = 1"
proof (cases "ClusterClientSetFunc c cluster")
  case (Inl e)
  with assms show ?thesis by (simp add: syncClusterStatus_def statusWrites_def)
next
  case (Inr cc)
  then show ?thesis
  proof (cases rule: sync_cases[where now = now])
    case (offline ps e k on h)
    with assms show ?thesis
      by (simp add: syncOffline_writes length_candidate split: if_splits)
  next
    case (online ps h k)
    with assms syncOnline_writes_length show ?thesis by simp
  qed
qed

subsection \<open>The Ready condition\<close>

text \<open>
  C9. \<^verbatim>\<open>generateReadyCondition\<close> returns a list of exactly one condition, of type Ready,
  which is one of three templates: not online gives ClusterNotReachable with status
  false, online and not healthy gives ClusterNotReady with status false, online and
  healthy gives ClusterReady with status true. The status that a reconciliation
  assembles from it has one condition, and every status that \<^verbatim>\<open>Reconcile\<close> hands to a
  status update has at most one.
\<close>

theorem generateReadyCondition_single:
  "generateReadyCondition now online healthy =
     [if \<not> online then newClusterOfflineCondition now
      else if \<not> healthy then newClusterNotReadyCondition now
      else newClusterReadyCondition now] \<and>
   list_all (\<lambda>c. Type c = ClusterConditionReady) (generateReadyCondition now online healthy) \<and>
   (Reason (newClusterOfflineCondition now), Status (newClusterOfflineCondition now)) =
     (''ClusterNotReachable'', ''False'') \<and>
   (Reason (newClusterNotReadyCondition now), Status (newClusterNotReadyCondition now)) =
     (''ClusterNotReady'', ''False'') \<and>
   (Reason (newClusterReadyCondition now), Status (newClusterReadyCondition now)) =
     (''ClusterReady'', ''True'') \<and>
   length (Conditions (setTransitionTime old
      (ClusterStatus0\<lparr>Conditions := generateReadyCondition now online healthy\<rparr>))) = 1 \<and>
   list_all (\<lambda>obj. length (Conditions (ClusterStatus obj)) \<le> 1)
     (statusWrites (calls (Reconcile c fin now req)))"
proof -
  have "list_all (\<lambda>obj. length (Conditions (ClusterStatus obj)) \<le> 1)
     (statusWrites (calls (Reconcile c fin now req)))"
  proof (cases "\<exists>cluster. Reconcile c fin now req = syncClusterStatus c now cluster")
    case True
    then obtain cluster where "Reconcile c fin now req = syncClusterStatus c now cluster" by blast
    then show ?thesis using sync_writes_length[of _ c now cluster]
      by (auto simp: list_all_iff)
  next
    case False
    then have "calls (Reconcile c fin now req) = []"
      by (auto simp: Reconcile_def split: sum.splits if_splits)
    then show ?thesis by (simp add: statusWrites_def)
  qed
  then show ?thesis
    by (simp add: length_candidate)
      (simp add: generateReadyCondition_def newClusterOfflineCondition_def
      newClusterNotReadyCondition_def newClusterReadyCondition_def clusterReady_def
      clusterNotReady_def clusterNotReachableReason_def ConditionTrue_def ConditionFalse_def)
qed

theorem generateReadyCondition_single_witness:
  "generateReadyCondition 7 True False = [newClusterNotReadyCondition 7] \<and>
   Reason (newClusterNotReadyCondition 7) = ''ClusterNotReady'' \<and>
   length (Conditions (setTransitionTime ClusterStatus0
      (ClusterStatus0\<lparr>Conditions := generateReadyCondition 7 True False\<rparr>))) = 1"
proof -
  note t = generateReadyCondition_single [of 7 True False ClusterStatus0]
  from t have "generateReadyCondition 7 True False = [newClusterNotReadyCondition 7]"
    by simp
  moreover from t have "Reason (newClusterNotReadyCondition 7) = ''ClusterNotReady''"
    by simp
  moreover from t have "length (Conditions (setTransitionTime ClusterStatus0
      (ClusterStatus0\<lparr>Conditions := generateReadyCondition 7 True False\<rparr>))) = 1"
    by blast
  ultimately show ?thesis by blast
qed

subsection \<open>Reconcile\<close>

text \<open>
  C6. \<^verbatim>\<open>Reconcile\<close> applies its early exits in order. A not-found error of the load
  returns the empty result and no error; any other error of the load returns that
  error with a requeue; a cluster marked for deletion returns the empty result and no
  error; a cluster without the finalizer returns a requeue and no error. None of the
  four makes a call (so no status write). Only otherwise \<^verbatim>\<open>syncClusterStatus\<close> runs.
\<close>

theorem Reconcile_early_exit:
  "(Get (Client c) req = Inl e \<and> IsNotFound e \<longrightarrow>
      Reconcile c fin now req = \<lparr>result = \<lparr>Requeue = False, RequeueAfter = 0\<rparr>, err = None, calls = []\<rparr>) \<and>
   (Get (Client c) req = Inl e \<and> \<not> IsNotFound e \<longrightarrow>
      Reconcile c fin now req = \<lparr>result = \<lparr>Requeue = True, RequeueAfter = 0\<rparr>, err = Some e, calls = []\<rparr>) \<and>
   (Get (Client c) req = Inr cluster \<and> \<not> IsZero (DeletionTimestamp cluster) \<longrightarrow>
      Reconcile c fin now req = \<lparr>result = \<lparr>Requeue = False, RequeueAfter = 0\<rparr>, err = None, calls = []\<rparr>) \<and>
   (Get (Client c) req = Inr cluster \<and> IsZero (DeletionTimestamp cluster) \<and>
    fin \<notin> set (Finalizers cluster) \<longrightarrow>
      Reconcile c fin now req = \<lparr>result = \<lparr>Requeue = True, RequeueAfter = 0\<rparr>, err = None, calls = []\<rparr>) \<and>
   (Get (Client c) req = Inr cluster \<and> IsZero (DeletionTimestamp cluster) \<and>
    fin \<in> set (Finalizers cluster) \<longrightarrow>
      Reconcile c fin now req = syncClusterStatus c now cluster)"
  by (simp add: Reconcile_def Result0_def ContainsFinalizer_def)

theorem Reconcile_early_exit_witness:
  "Get (Client (controllerFor healthyMember)) ''gone'' = Inl NotFound \<and> IsNotFound NotFound \<and>
   Reconcile (controllerFor healthyMember) ''karmada.io/cluster-controller'' 100 ''gone'' =
     \<lparr>result = \<lparr>Requeue = False, RequeueAfter = 0\<rparr>, err = None, calls = []\<rparr> \<and>
   Get (Client (controllerFor healthyMember)) ''member1'' = Inr member1 \<and>
   IsZero (DeletionTimestamp member1) \<and>
   ''other.io/finalizer'' \<notin> set (Finalizers member1) \<and>
   Reconcile (controllerFor healthyMember) ''other.io/finalizer'' 100 ''member1'' =
     \<lparr>result = \<lparr>Requeue = True, RequeueAfter = 0\<rparr>, err = None, calls = []\<rparr>"
proof -
  have h1: "Get (Client (controllerFor healthyMember)) ''gone'' = Inl NotFound \<and> IsNotFound NotFound"
    by (simp add: controllerFor_def controlPlane_def)
  have h2: "Get (Client (controllerFor healthyMember)) ''member1'' = Inr member1 \<and>
            IsZero (DeletionTimestamp member1) \<and>
            ''other.io/finalizer'' \<notin> set (Finalizers member1)"
    by (simp add: controllerFor_def controlPlane_def member1_def IsZero_def)
  from Reconcile_early_exit
         [of "controllerFor healthyMember" "''gone''" NotFound "''karmada.io/cluster-controller''" 100]
       h1
  have "Reconcile (controllerFor healthyMember) ''karmada.io/cluster-controller'' 100 ''gone'' =
     \<lparr>result = \<lparr>Requeue = False, RequeueAfter = 0\<rparr>, err = None, calls = []\<rparr>"
    by blast
  moreover
  from Reconcile_early_exit
         [of "controllerFor healthyMember" "''member1''" _ "''other.io/finalizer''" 100 member1]
       h2
  have "Reconcile (controllerFor healthyMember) ''other.io/finalizer'' 100 ''member1'' =
     \<lparr>result = \<lparr>Requeue = True, RequeueAfter = 0\<rparr>, err = None, calls = []\<rparr>"
    by blast
  ultimately show ?thesis using h1 h2 by blast
qed

subsection \<open>The bounded retry and the unreachable cluster\<close>

lemma offline_unhealthy:
  "\<not> fst (fst (getClusterHealthStatus client)) \<Longrightarrow> fst (getClusterHealthStatus client) = (False, False)"
  by (auto simp: getClusterHealthStatus_def split: prod.splits if_splits)

lemma healthCalls_first:
  "a < b \<Longrightarrow> healthCalls cc a b =
     map HealthCall (snd (getClusterHealthStatus (Health cc a))) @ healthCalls cc (Suc a) b"
  by (simp add: healthCalls_def upt_conv_Cons)

lemma healthCalls_one:
  "healthCalls cc a (Suc a) = map HealthCall (snd (getClusterHealthStatus (Health cc a)))"
  by (simp add: healthCalls_def)

text \<open>The retry when every health check it makes reports the cluster offline.\<close>

lemma pollLoop_offline:
  assumes "\<And>i. k \<le> i \<Longrightarrow> i \<le> k + n \<Longrightarrow> \<not> fst (fst (getClusterHealthStatus (Health cc i)))"
  shows "pollLoop n (retryCondition cc) (on0, h0, k, done) =
           (Some ErrWaitTimeout, (False, False, Suc (k + n), done @ healthCalls cc k (Suc (k + n))))"
  using assms
proof (induction n arbitrary: on0 h0 k "done")
  case 0
  from 0[of k] have "fst (getClusterHealthStatus (Health cc k)) = (False, False)"
    by (simp add: offline_unhealthy)
  then obtain ps where g: "getClusterHealthStatus (Health cc k) = ((False, False), ps)"
    by (metis prod.collapse)
  then show ?case by (simp add: retryCondition_eq healthCalls_one)
next
  case (Suc n)
  from Suc.prems[of k] have "fst (getClusterHealthStatus (Health cc k)) = (False, False)"
    by (simp add: offline_unhealthy)
  then obtain ps where g: "getClusterHealthStatus (Health cc k) = ((False, False), ps)"
    by (metis prod.collapse)
  have "pollLoop n (retryCondition cc) (False, False, Suc k, done @ map HealthCall ps) =
          (Some ErrWaitTimeout,
           (False, False, Suc (Suc k + n),
            (done @ map HealthCall ps) @ healthCalls cc (Suc k) (Suc (Suc k + n))))"
    by (rule Suc.IH) (simp add: Suc.prems)
  with g show ?case
    by (simp add: retryCondition_eq healthCalls_first[of k "Suc (Suc (k + n))"])
qed

text \<open>The retry when the health check number \<open>j\<close> is the first that reports the cluster online.\<close>

lemma pollLoop_back_online:
  assumes "k \<le> j" and "j \<le> k + n"
    and "\<And>i. k \<le> i \<Longrightarrow> i < j \<Longrightarrow> \<not> fst (fst (getClusterHealthStatus (Health cc i)))"
    and "fst (fst (getClusterHealthStatus (Health cc j)))"
  shows "pollLoop n (retryCondition cc) (on0, h0, k, done) =
           (None, (True, snd (fst (getClusterHealthStatus (Health cc j))), Suc j,
                   done @ healthCalls cc k (Suc j)))"
  using assms
proof (induction n arbitrary: on0 h0 k "done")
  case 0
  then have j: "j = k" by simp
  obtain h1 ps where g: "getClusterHealthStatus (Health cc k) = ((True, h1), ps)"
    using 0(4) j by (metis prod.collapse)
  then show ?case by (simp add: j retryCondition_eq healthCalls_one)
next
  case (Suc n)
  show ?case
  proof (cases "j = k")
    case True
    obtain h1 ps where g: "getClusterHealthStatus (Health cc k) = ((True, h1), ps)"
      using Suc.prems(4) True by (metis prod.collapse)
    then show ?thesis by (simp add: True retryCondition_eq healthCalls_one)
  next
    case False
    with Suc.prems(1) have kj: "k < j" by simp
    from Suc.prems(3)[of k] kj have "fst (getClusterHealthStatus (Health cc k)) = (False, False)"
      by (simp add: offline_unhealthy)
    then obtain ps where g: "getClusterHealthStatus (Health cc k) = ((False, False), ps)"
      by (metis prod.collapse)
    have "pollLoop n (retryCondition cc) (False, False, Suc k, done @ map HealthCall ps) =
           (None, (True, snd (fst (getClusterHealthStatus (Health cc j))), Suc j,
                   (done @ map HealthCall ps) @ healthCalls cc (Suc k) (Suc j)))"
      by (rule Suc.IH) (use Suc.prems kj in simp_all)
    with g kj show ?thesis
      by (simp add: retryCondition_eq healthCalls_first[of k "Suc j"])
  qed
qed

lemma retryTicks_bound:
  "retryTicks cc \<le> clusterStatusRetryTimeout div clusterStatusRetryInterval \<and>
   clusterStatusRetryTimeout div clusterStatusRetryInterval = 4"
  by (simp add: retryTicks_def clusterStatusRetryTimeout_def clusterStatusRetryInterval_def)

lemma probePhase_offline:
  assumes "\<And>i. i \<le> Suc (retryTicks cc) \<Longrightarrow> \<not> fst (fst (getClusterHealthStatus (Health cc i)))"
  shows "probePhase cc =
           (Some ErrWaitTimeout,
            (False, False, retryTicks cc + 2, healthCalls cc 0 (retryTicks cc + 2)))"
proof -
  from assms[of 0] have "fst (getClusterHealthStatus (Health cc 0)) = (False, False)"
    by (simp add: offline_unhealthy)
  then obtain ps0 where g: "getClusterHealthStatus (Health cc 0) = ((False, False), ps0)"
    by (metis prod.collapse)
  then have hc: "healthCheck cc 0 [] = (False, False, 1, map HealthCall ps0)"
    by (simp add: healthCheck_def)
  have "pollLoop (retryTicks cc) (retryCondition cc) (False, False, 1, map HealthCall ps0) =
          (Some ErrWaitTimeout,
           (False, False, Suc (1 + retryTicks cc),
            map HealthCall ps0 @ healthCalls cc 1 (Suc (1 + retryTicks cc))))"
    by (rule pollLoop_offline) (simp add: assms)
  with hc g show ?thesis
    by (simp add: probePhase_def wait_Poll_def retryTicks_def[symmetric]
        healthCalls_first[of 0 "Suc (Suc (retryTicks cc))"])
qed

lemma probePhase_back_online:
  assumes "1 \<le> j" and "j \<le> Suc (retryTicks cc)"
    and "\<And>i. i < j \<Longrightarrow> \<not> fst (fst (getClusterHealthStatus (Health cc i)))"
    and "fst (fst (getClusterHealthStatus (Health cc j)))"
  shows "probePhase cc =
           (None, (True, snd (fst (getClusterHealthStatus (Health cc j))), Suc j,
                   healthCalls cc 0 (Suc j)))"
proof -
  from assms(1) assms(3)[of 0] have "fst (getClusterHealthStatus (Health cc 0)) = (False, False)"
    by (simp add: offline_unhealthy)
  then obtain ps0 where g: "getClusterHealthStatus (Health cc 0) = ((False, False), ps0)"
    by (metis prod.collapse)
  then have hc: "healthCheck cc 0 [] = (False, False, 1, map HealthCall ps0)"
    by (simp add: healthCheck_def)
  have "pollLoop (retryTicks cc) (retryCondition cc) (False, False, 1, map HealthCall ps0) =
           (None, (True, snd (fst (getClusterHealthStatus (Health cc j))), Suc j,
                   map HealthCall ps0 @ healthCalls cc 1 (Suc j)))"
    by (rule pollLoop_back_online) (use assms in simp_all)
  with hc g assms(1) show ?thesis
    by (simp add: probePhase_def wait_Poll_def retryTicks_def[symmetric]
        healthCalls_first[of 0 "Suc j"])
qed

lemma sync_timeout:
  assumes "ClusterClientSetFunc c cluster = Inr cc" and "fst (probePhase cc) \<noteq> None"
  shows "\<exists>ps. syncClusterStatus c now cluster =
           updateStatusIfNeeded c cluster
             (setTransitionTime (ClusterStatus cluster)
                (ClusterStatus0\<lparr>Conditions := [newClusterOfflineCondition now]\<rparr>))
             (map HealthCall ps)"
  using assms(1)
proof (cases rule: sync_cases[where now = now])
  case (offline ps e k on h)
  then show ?thesis by (auto simp: syncOffline_def generateReadyCondition_def)
next
  case (online ps h k)
  with assms(2) show ?thesis by simp
qed

lemma offlineMember_offline: "\<not> fst (fst (getClusterHealthStatus (Health offlineMember i)))"
  by (simp add: offlineMember_def offlineServer_def getClusterHealthStatus_def
      healthEndpointCheck_def StatusNotFound_def)

lemma syncOnline_first_call:
  "\<exists>rest. calls (syncOnline c now cluster cc on h done) = done @ ServerVersionCall # rest"
  by (auto simp: syncOnline_def updateStatusIfNeeded_calls split: prod.splits option.splits)

lemma updateStatusIfNeeded_outcome:
  "updateStatusIfNeeded c cluster cur done =
     (if Semantic_DeepEqual (ClusterStatus cluster) cur
      then \<lparr>result = \<lparr>Requeue = False, RequeueAfter = ClusterStatusUpdateFrequency c\<rparr>,
            err = None, calls = done\<rparr>
      else \<lparr>result = (case StatusUpdate (Client c) (cluster\<lparr>ClusterStatus := cur\<rparr>) of
                        None \<Rightarrow> \<lparr>Requeue = False, RequeueAfter = ClusterStatusUpdateFrequency c\<rparr>
                      | Some e \<Rightarrow> \<lparr>Requeue = True, RequeueAfter = 0\<rparr>),
            err = StatusUpdate (Client c) (cluster\<lparr>ClusterStatus := cur\<rparr>),
            calls = done @ [StatusUpdateCall (cluster\<lparr>ClusterStatus := cur\<rparr>)]\<rparr>)"
  by (simp add: updateStatusIfNeeded_def Result0_def split: option.splits)

lemma stored_health_update:
  "stored c (healthCalls cc a b @ [StatusUpdateCall obj]) cluster =
     (if StatusUpdate (Client c) obj = None then obj else cluster)"
proof -
  have "statusWrites (healthCalls cc a b) = []"
    by (simp add: healthCalls_def statusWrites_def)
  then show ?thesis by (simp add: stored_nowrites)
qed

lemma stored_health:
  "stored c (healthCalls cc a b) cluster = cluster"
proof -
  have "statusWrites (healthCalls cc a b) = []"
    by (simp add: healthCalls_def statusWrites_def)
  then show ?thesis by (rule stored_nowrites')
qed

text \<open>
  C5. The retry interval is 500 ms and the retry timeout 2 s, so the retry receives at
  most four ticks. When the first health check and every health check of the retry
  (one at each tick received and one when the timeout has closed the channel) report
  the cluster offline, \<^verbatim>\<open>syncClusterStatus\<close> returns: its calls are these health
  checks, in order, followed by nothing else but the status update of the conditional
  write, which is made exactly when the stored status differs from the status that
  holds the unreachable condition only; the server version, the installed APIs, the
  nodes and the pods are not requested and no health check follows the timeout. The
  result and the error are those of the conditional write, and the stored status is
  the unreachable one when the update was made and succeeded. When instead a health
  check of the retry is the first to report the cluster online, the health checks
  stop with it and the server version is requested next.
\<close>

theorem syncClusterStatus_offline_terminates:
  "clusterStatusRetryInterval = 500 \<and> clusterStatusRetryTimeout = 2000 \<and>
   retryTicks cc \<le> clusterStatusRetryTimeout div clusterStatusRetryInterval \<and>
   (ClusterClientSetFunc c cluster = Inr cc \<and>
    (\<forall>i \<le> Suc (retryTicks cc). \<not> fst (fst (getClusterHealthStatus (Health cc i)))) \<longrightarrow>
      (let unreachable = setTransitionTime (ClusterStatus cluster)
                           (ClusterStatus0\<lparr>Conditions := [newClusterOfflineCondition now]\<rparr>)
       in syncClusterStatus c now cluster =
            (if Semantic_DeepEqual (ClusterStatus cluster) unreachable
             then \<lparr>result = \<lparr>Requeue = False, RequeueAfter = ClusterStatusUpdateFrequency c\<rparr>,
                   err = None,
                   calls = healthCalls cc 0 (retryTicks cc + 2)\<rparr>
             else \<lparr>result =
                     (case StatusUpdate (Client c) (cluster\<lparr>ClusterStatus := unreachable\<rparr>) of
                        None \<Rightarrow> \<lparr>Requeue = False, RequeueAfter = ClusterStatusUpdateFrequency c\<rparr>
                      | Some e \<Rightarrow> \<lparr>Requeue = True, RequeueAfter = 0\<rparr>),
                   err = StatusUpdate (Client c) (cluster\<lparr>ClusterStatus := unreachable\<rparr>),
                   calls = healthCalls cc 0 (retryTicks cc + 2) @
                           [StatusUpdateCall (cluster\<lparr>ClusterStatus := unreachable\<rparr>)]\<rparr>) \<and>
          reconcileStored c now cluster =
            (if \<not> Semantic_DeepEqual (ClusterStatus cluster) unreachable \<and>
                StatusUpdate (Client c) (cluster\<lparr>ClusterStatus := unreachable\<rparr>) = None
             then cluster\<lparr>ClusterStatus := unreachable\<rparr> else cluster))) \<and>
   (ClusterClientSetFunc c cluster = Inr cc \<and> 1 \<le> j \<and> j \<le> Suc (retryTicks cc) \<and>
    (\<forall>i < j. \<not> fst (fst (getClusterHealthStatus (Health cc i)))) \<and>
    fst (fst (getClusterHealthStatus (Health cc j))) \<longrightarrow>
      (\<exists>rest. calls (syncClusterStatus c now cluster) =
                healthCalls cc 0 (Suc j) @ ServerVersionCall # rest))"
proof (intro conjI impI)
  show "clusterStatusRetryInterval = 500" by (simp add: clusterStatusRetryInterval_def)
  show "clusterStatusRetryTimeout = 2000" by (simp add: clusterStatusRetryTimeout_def)
  show "retryTicks cc \<le> clusterStatusRetryTimeout div clusterStatusRetryInterval"
    by (simp add: retryTicks_def)
next
  assume a: "ClusterClientSetFunc c cluster = Inr cc \<and>
    (\<forall>i \<le> Suc (retryTicks cc). \<not> fst (fst (getClusterHealthStatus (Health cc i))))"
  then have p: "probePhase cc =
           (Some ErrWaitTimeout,
            (False, False, retryTicks cc + 2, healthCalls cc 0 (retryTicks cc + 2)))"
    by (intro probePhase_offline) simp
  define unreachable where "unreachable = setTransitionTime (ClusterStatus cluster)
                           (ClusterStatus0\<lparr>Conditions := [newClusterOfflineCondition now]\<rparr>)"
  from a p have s: "syncClusterStatus c now cluster =
      updateStatusIfNeeded c cluster unreachable (healthCalls cc 0 (retryTicks cc + 2))"
    by (simp add: syncClusterStatus_def syncOffline_def generateReadyCondition_def
        unreachable_def)
  have "syncClusterStatus c now cluster =
            (if Semantic_DeepEqual (ClusterStatus cluster) unreachable
             then \<lparr>result = \<lparr>Requeue = False, RequeueAfter = ClusterStatusUpdateFrequency c\<rparr>,
                   err = None,
                   calls = healthCalls cc 0 (retryTicks cc + 2)\<rparr>
             else \<lparr>result =
                     (case StatusUpdate (Client c) (cluster\<lparr>ClusterStatus := unreachable\<rparr>) of
                        None \<Rightarrow> \<lparr>Requeue = False, RequeueAfter = ClusterStatusUpdateFrequency c\<rparr>
                      | Some e \<Rightarrow> \<lparr>Requeue = True, RequeueAfter = 0\<rparr>),
                   err = StatusUpdate (Client c) (cluster\<lparr>ClusterStatus := unreachable\<rparr>),
                   calls = healthCalls cc 0 (retryTicks cc + 2) @
                           [StatusUpdateCall (cluster\<lparr>ClusterStatus := unreachable\<rparr>)]\<rparr>)"
    by (simp only: s updateStatusIfNeeded_outcome)
  moreover have "reconcileStored c now cluster =
            (if \<not> Semantic_DeepEqual (ClusterStatus cluster) unreachable \<and>
                StatusUpdate (Client c) (cluster\<lparr>ClusterStatus := unreachable\<rparr>) = None
             then cluster\<lparr>ClusterStatus := unreachable\<rparr> else cluster)"
    by (simp add: reconcileStored_def s updateStatusIfNeeded_calls stored_health
        stored_health_update)
  ultimately show "let unreachable = setTransitionTime (ClusterStatus cluster)
                           (ClusterStatus0\<lparr>Conditions := [newClusterOfflineCondition now]\<rparr>)
       in syncClusterStatus c now cluster =
            (if Semantic_DeepEqual (ClusterStatus cluster) unreachable
             then \<lparr>result = \<lparr>Requeue = False, RequeueAfter = ClusterStatusUpdateFrequency c\<rparr>,
                   err = None,
                   calls = healthCalls cc 0 (retryTicks cc + 2)\<rparr>
             else \<lparr>result =
                     (case StatusUpdate (Client c) (cluster\<lparr>ClusterStatus := unreachable\<rparr>) of
                        None \<Rightarrow> \<lparr>Requeue = False, RequeueAfter = ClusterStatusUpdateFrequency c\<rparr>
                      | Some e \<Rightarrow> \<lparr>Requeue = True, RequeueAfter = 0\<rparr>),
                   err = StatusUpdate (Client c) (cluster\<lparr>ClusterStatus := unreachable\<rparr>),
                   calls = healthCalls cc 0 (retryTicks cc + 2) @
                           [StatusUpdateCall (cluster\<lparr>ClusterStatus := unreachable\<rparr>)]\<rparr>) \<and>
          reconcileStored c now cluster =
            (if \<not> Semantic_DeepEqual (ClusterStatus cluster) unreachable \<and>
                StatusUpdate (Client c) (cluster\<lparr>ClusterStatus := unreachable\<rparr>) = None
             then cluster\<lparr>ClusterStatus := unreachable\<rparr> else cluster)"
    unfolding Let_def unreachable_def by (rule conjI)
next
  assume a: "ClusterClientSetFunc c cluster = Inr cc \<and> 1 \<le> j \<and> j \<le> Suc (retryTicks cc) \<and>
    (\<forall>i < j. \<not> fst (fst (getClusterHealthStatus (Health cc i)))) \<and>
    fst (fst (getClusterHealthStatus (Health cc j)))"
  then have "probePhase cc =
           (None, (True, snd (fst (getClusterHealthStatus (Health cc j))), Suc j,
                   healthCalls cc 0 (Suc j)))"
    by (intro probePhase_back_online) simp_all
  with a have "syncClusterStatus c now cluster =
      syncOnline c now cluster cc True (snd (fst (getClusterHealthStatus (Health cc j))))
        (healthCalls cc 0 (Suc j))"
    by (simp add: syncClusterStatus_def)
  then show "\<exists>rest. calls (syncClusterStatus c now cluster) =
                healthCalls cc 0 (Suc j) @ ServerVersionCall # rest"
    by (simp only: syncOnline_first_call)
qed

lemma healthCalls_offlineMember:
  "healthCalls offlineMember a b = replicate (b - a) (HealthCall ''/readyz'')"
proof -
  have "snd (getClusterHealthStatus (Health offlineMember k)) = [''/readyz'']" for k
    by (simp add: offlineMember_def offlineServer_def getClusterHealthStatus_def
        healthEndpointCheck_def StatusNotFound_def)
  then have "healthCalls offlineMember a b = concat (map (\<lambda>k. [HealthCall ''/readyz'']) [a..<b])"
    by (simp add: healthCalls_def)
  also have "\<dots> = replicate (b - a) (HealthCall ''/readyz'')"
    by (induction b) (simp_all add: Suc_diff_le replicate_append_same)
  finally show ?thesis .
qed

lemma recoveringMember_checks:
  "\<not> fst (fst (getClusterHealthStatus (Health recoveringMember 0)))"
  "\<not> fst (fst (getClusterHealthStatus (Health recoveringMember 1)))"
  "fst (fst (getClusterHealthStatus (Health recoveringMember 2)))"
  "healthCalls recoveringMember 0 (Suc 2) =
     [HealthCall ''/readyz'', HealthCall ''/readyz'', HealthCall ''/readyz'']"
  by (simp_all add: recoveringMember_def recoveringServers_def offlineServer_def okServer_def
      getClusterHealthStatus_def healthEndpointCheck_def StatusNotFound_def StatusOK_def
      healthCalls_def eval_nat_numeral)

theorem syncClusterStatus_offline_terminates_witness:
  "ClusterClientSetFunc (controllerFor offlineMember) member1 = Inr offlineMember \<and>
   retryTicks offlineMember = 4 \<and>
   \<not> fst (fst (getClusterHealthStatus (Health offlineMember 5))) \<and>
   syncClusterStatus (controllerFor offlineMember) 100 member1 =
     \<lparr>result = \<lparr>Requeue = False, RequeueAfter = 10000\<rparr>, err = None,
      calls = replicate 6 (HealthCall ''/readyz'') @
              [StatusUpdateCall
                 (member1\<lparr>ClusterStatus :=
                    ClusterStatus0\<lparr>Conditions := [newClusterOfflineCondition 100]\<rparr>\<rparr>)]\<rparr> \<and>
   reconcileStored (controllerFor offlineMember) 100 member1 =
     member1\<lparr>ClusterStatus := ClusterStatus0\<lparr>Conditions := [newClusterOfflineCondition 100]\<rparr>\<rparr> \<and>
   ClusterClientSetFunc (controllerFor recoveringMember) member1 = Inr recoveringMember \<and>
   (\<exists>rest. calls (syncClusterStatus (controllerFor recoveringMember) 100 member1) =
      [HealthCall ''/readyz'', HealthCall ''/readyz'', HealthCall ''/readyz''] @
      ServerVersionCall # rest)"
proof -
  have h1: "ClusterClientSetFunc (controllerFor offlineMember) member1 = Inr offlineMember"
    by (simp add: controllerFor_def)
  have h2: "\<forall>i \<le> Suc (retryTicks offlineMember).
              \<not> fst (fst (getClusterHealthStatus (Health offlineMember i)))"
    by (simp add: offlineMember_offline)
  have n: "retryTicks offlineMember = 4"
    by (simp add: retryTicks_def offlineMember_def clusterStatusRetryTimeout_def
        clusterStatusRetryInterval_def)
  have u: "setTransitionTime (ClusterStatus member1)
             (ClusterStatus0\<lparr>Conditions := [newClusterOfflineCondition 100]\<rparr>) =
           ClusterStatus0\<lparr>Conditions := [newClusterOfflineCondition 100]\<rparr>"
    by (simp add: setTransitionTime_def IsClusterReady_def member1_def memberStatus_def
        newClusterReadyCondition_def newClusterOfflineCondition_def ClusterStatus0_def
        ClusterConditionReady_def ConditionTrue_def ConditionFalse_def)
  have d: "\<not> Semantic_DeepEqual (ClusterStatus member1)
             (ClusterStatus0\<lparr>Conditions := [newClusterOfflineCondition 100]\<rparr>)"
    by (simp add: Semantic_DeepEqual_def member1_def memberStatus_def ClusterStatus0_def)
  have w: "StatusUpdate (Client (controllerFor offlineMember)) obj = None" for obj
    by (simp add: controllerFor_def controlPlane_def)
  have f: "ClusterStatusUpdateFrequency (controllerFor offlineMember) = 10000"
    by (simp add: controllerFor_def)
  have g1: "ClusterClientSetFunc (controllerFor recoveringMember) member1 = Inr recoveringMember"
    by (simp add: controllerFor_def)
  have g2: "(1::nat) \<le> 2 \<and> 2 \<le> Suc (retryTicks recoveringMember) \<and>
    (\<forall>i < 2. \<not> fst (fst (getClusterHealthStatus (Health recoveringMember i)))) \<and>
    fst (fst (getClusterHealthStatus (Health recoveringMember 2)))"
    using recoveringMember_checks(1,2,3)
    by (simp add: retryTicks_def recoveringMember_def clusterStatusRetryTimeout_def
        clusterStatusRetryInterval_def less_Suc_eq numeral_2_eq_2)
  from syncClusterStatus_offline_terminates
         [of offlineMember "controllerFor offlineMember" member1 100] h1 h2
  have "syncClusterStatus (controllerFor offlineMember) 100 member1 =
     \<lparr>result = \<lparr>Requeue = False, RequeueAfter = 10000\<rparr>, err = None,
      calls = replicate 6 (HealthCall ''/readyz'') @
              [StatusUpdateCall
                 (member1\<lparr>ClusterStatus :=
                    ClusterStatus0\<lparr>Conditions := [newClusterOfflineCondition 100]\<rparr>\<rparr>)]\<rparr> \<and>
   reconcileStored (controllerFor offlineMember) 100 member1 =
     member1\<lparr>ClusterStatus := ClusterStatus0\<lparr>Conditions := [newClusterOfflineCondition 100]\<rparr>\<rparr>"
    by (simp add: Let_def u d w f n healthCalls_offlineMember)
  moreover
  note t = syncClusterStatus_offline_terminates
         [where cc = recoveringMember and c = "controllerFor recoveringMember"
            and cluster = member1 and j = 2 and now = 100]
  have "\<exists>rest. calls (syncClusterStatus (controllerFor recoveringMember) 100 member1) =
      healthCalls recoveringMember 0 (Suc 2) @ ServerVersionCall # rest"
    by (rule t[THEN conjunct2, THEN conjunct2, THEN conjunct2, THEN conjunct2, THEN mp])
      (use g1 g2 in blast)
  then have "\<exists>rest. calls (syncClusterStatus (controllerFor recoveringMember) 100 member1) =
      [HealthCall ''/readyz'', HealthCall ''/readyz'', HealthCall ''/readyz''] @
      ServerVersionCall # rest"
    by (simp only: recoveringMember_checks(4))
  ultimately show ?thesis using h1 g1 n offlineMember_offline by blast
qed

text \<open>
  C10. When the retry has timed out, a status that \<^verbatim>\<open>syncClusterStatus\<close> hands to the
  status update holds one condition, of type Ready, an empty version, no API
  enablements and the zero node summary. When the stored status has a version, API
  enablements or a node summary other than zero, the update is made, and when it
  succeeds the stored status has lost them.
\<close>

theorem syncClusterStatus_offline_erases:
  "ClusterClientSetFunc c cluster = Inr cc \<and> fst (probePhase cc) \<noteq> None \<longrightarrow>
     list_all (\<lambda>obj. KubernetesVersion (ClusterStatus obj) = [] \<and>
                     APIEnablements (ClusterStatus obj) = [] \<and>
                     NodeSummary (ClusterStatus obj) = NodeSummary0 \<and>
                     list_all (\<lambda>x. Type x = ClusterConditionReady)
                       (Conditions (ClusterStatus obj)) \<and>
                     length (Conditions (ClusterStatus obj)) = 1)
       (statusWrites (calls (syncClusterStatus c now cluster))) \<and>
     (KubernetesVersion (ClusterStatus cluster) \<noteq> [] \<or>
      APIEnablements (ClusterStatus cluster) \<noteq> [] \<or>
      \<not> NodeSummary_equal (NodeSummary (ClusterStatus cluster)) NodeSummary0 \<longrightarrow>
        length (statusWrites (calls (syncClusterStatus c now cluster))) = 1 \<and>
        (list_all (\<lambda>obj. StatusUpdate (Client c) obj = None)
           (statusWrites (calls (syncClusterStatus c now cluster))) \<longrightarrow>
           KubernetesVersion (ClusterStatus (reconcileStored c now cluster)) = [] \<and>
           APIEnablements (ClusterStatus (reconcileStored c now cluster)) = [] \<and>
           NodeSummary (ClusterStatus (reconcileStored c now cluster)) = NodeSummary0))"
proof (intro impI)
  assume a: "ClusterClientSetFunc c cluster = Inr cc \<and> fst (probePhase cc) \<noteq> None"
  define cur where "cur = setTransitionTime (ClusterStatus cluster)
                (ClusterStatus0\<lparr>Conditions := [newClusterOfflineCondition now]\<rparr>)"
  from sync_timeout[OF conjunct1[OF a] conjunct2[OF a], of now]
  obtain ps where s: "syncClusterStatus c now cluster =
      updateStatusIfNeeded c cluster cur (map HealthCall ps)"
    unfolding cur_def by blast
  have w: "statusWrites (calls (syncClusterStatus c now cluster)) =
     (if Semantic_DeepEqual (ClusterStatus cluster) cur then []
      else [cluster\<lparr>ClusterStatus := cur\<rparr>])"
    by (simp add: s statusWrites_updateStatusIfNeeded statusWrites_health)
  have cur1: "KubernetesVersion cur = []" "APIEnablements cur = []" "NodeSummary cur = NodeSummary0"
    by (simp_all add: cur_def setTransitionTime_others) (simp_all add: ClusterStatus0_def)
  have cur2: "length (Conditions cur) = 1"
    by (simp add: cur_def Conditions_setTransitionTime)
  have cur3: "list_all (\<lambda>x. Type x = ClusterConditionReady) (Conditions cur)"
    by (simp add: cur_def Conditions_setTransitionTime newClusterOfflineCondition_def)
  have part1: "list_all (\<lambda>obj. KubernetesVersion (ClusterStatus obj) = [] \<and>
                     APIEnablements (ClusterStatus obj) = [] \<and>
                     NodeSummary (ClusterStatus obj) = NodeSummary0 \<and>
                     list_all (\<lambda>x. Type x = ClusterConditionReady)
                       (Conditions (ClusterStatus obj)) \<and>
                     length (Conditions (ClusterStatus obj)) = 1)
       (statusWrites (calls (syncClusterStatus c now cluster)))"
    using cur1 cur2 cur3 by (simp add: w)
  have part2: "length (statusWrites (calls (syncClusterStatus c now cluster))) = 1 \<and>
        (list_all (\<lambda>obj. StatusUpdate (Client c) obj = None)
           (statusWrites (calls (syncClusterStatus c now cluster))) \<longrightarrow>
           KubernetesVersion (ClusterStatus (reconcileStored c now cluster)) = [] \<and>
           APIEnablements (ClusterStatus (reconcileStored c now cluster)) = [] \<and>
           NodeSummary (ClusterStatus (reconcileStored c now cluster)) = NodeSummary0)"
    if b: "KubernetesVersion (ClusterStatus cluster) \<noteq> [] \<or>
      APIEnablements (ClusterStatus cluster) \<noteq> [] \<or>
      \<not> NodeSummary_equal (NodeSummary (ClusterStatus cluster)) NodeSummary0"
  proof -
    from b cur1 have ne: "\<not> Semantic_DeepEqual (ClusterStatus cluster) cur"
      by (auto simp: Semantic_DeepEqual_def)
    have st: "reconcileStored c now cluster =
        (if StatusUpdate (Client c) (cluster\<lparr>ClusterStatus := cur\<rparr>) = None
         then cluster\<lparr>ClusterStatus := cur\<rparr> else cluster)"
      using ne
      by (simp add: reconcileStored_def s updateStatusIfNeeded_calls stored_nowrites statusWrites_health)
    from ne w st cur1 show ?thesis by simp
  qed
  from part1 part2 show "list_all (\<lambda>obj. KubernetesVersion (ClusterStatus obj) = [] \<and>
                     APIEnablements (ClusterStatus obj) = [] \<and>
                     NodeSummary (ClusterStatus obj) = NodeSummary0 \<and>
                     list_all (\<lambda>x. Type x = ClusterConditionReady)
                       (Conditions (ClusterStatus obj)) \<and>
                     length (Conditions (ClusterStatus obj)) = 1)
       (statusWrites (calls (syncClusterStatus c now cluster))) \<and>
     (KubernetesVersion (ClusterStatus cluster) \<noteq> [] \<or>
      APIEnablements (ClusterStatus cluster) \<noteq> [] \<or>
      \<not> NodeSummary_equal (NodeSummary (ClusterStatus cluster)) NodeSummary0 \<longrightarrow>
        length (statusWrites (calls (syncClusterStatus c now cluster))) = 1 \<and>
        (list_all (\<lambda>obj. StatusUpdate (Client c) obj = None)
           (statusWrites (calls (syncClusterStatus c now cluster))) \<longrightarrow>
           KubernetesVersion (ClusterStatus (reconcileStored c now cluster)) = [] \<and>
           APIEnablements (ClusterStatus (reconcileStored c now cluster)) = [] \<and>
           NodeSummary (ClusterStatus (reconcileStored c now cluster)) = NodeSummary0))"
    by blast
qed

theorem syncClusterStatus_offline_erases_witness:
  "ClusterClientSetFunc (controllerFor offlineMember) member1 = Inr offlineMember \<and>
   fst (probePhase offlineMember) \<noteq> None \<and>
   KubernetesVersion (ClusterStatus member1) = ''v1.19.1'' \<and>
   length (statusWrites (calls (syncClusterStatus (controllerFor offlineMember) 100 member1))) = 1 \<and>
   KubernetesVersion (ClusterStatus (reconcileStored (controllerFor offlineMember) 100 member1)) = [] \<and>
   APIEnablements (ClusterStatus (reconcileStored (controllerFor offlineMember) 100 member1)) = []"
proof -
  have h1: "ClusterClientSetFunc (controllerFor offlineMember) member1 = Inr offlineMember"
    by (simp add: controllerFor_def)
  have "probePhase offlineMember =
          (Some ErrWaitTimeout,
           (False, False, retryTicks offlineMember + 2,
            healthCalls offlineMember 0 (retryTicks offlineMember + 2)))"
    by (rule probePhase_offline) (rule offlineMember_offline)
  then have h2: "fst (probePhase offlineMember) \<noteq> None" by simp
  have h3: "KubernetesVersion (ClusterStatus member1) = ''v1.19.1''"
    by (simp add: member1_def memberStatus_def)
  have h4: "list_all (\<lambda>obj. StatusUpdate (Client (controllerFor offlineMember)) obj = None) xs" for xs
    by (induction xs) (simp_all add: controllerFor_def controlPlane_def)
  from syncClusterStatus_offline_erases [of "controllerFor offlineMember" member1 offlineMember 100] h1 h2 h3 h4
  show ?thesis by simp
qed

subsection \<open>The conditional write and the transition time\<close>

lemma generate_retime:
  "map (\<lambda>c. c\<lparr>LastTransitionTime := t\<rparr>) (generateReadyCondition now on h) =
     generateReadyCondition t on h"
  by (simp add: generateReadyCondition_def newClusterOfflineCondition_def
      newClusterNotReadyCondition_def newClusterReadyCondition_def)

lemma hd_generate: "LastTransitionTime (hd (generateReadyCondition t on h)) = t"
  by (simp add: generateReadyCondition_def newClusterOfflineCondition_def
      newClusterNotReadyCondition_def newClusterReadyCondition_def)

lemma generate_nonempty: "generateReadyCondition t on h \<noteq> []"
  by (simp add: generateReadyCondition_def)

text \<open>The status that a reconciliation assembles, in closed form.\<close>

lemma candidate_form:
  "(setTransitionTime old (ClusterStatus0\<lparr>Conditions := generateReadyCondition now on h\<rparr>))
      \<lparr>KubernetesVersion := ver, APIEnablements := apis, NodeSummary := ns\<rparr> =
   \<lparr>KubernetesVersion = ver, APIEnablements = apis,
    Conditions = generateReadyCondition
      (if IsClusterReady old = (on \<and> h) \<and> Conditions old \<noteq> []
       then LastTransitionTime (hd (Conditions old)) else now) on h,
    NodeSummary = ns\<rparr>"
  by (simp add: setTransitionTime_def IsClusterReady_def IsClusterReady_generate
      generate_retime hd_conv_nth ClusterStatus0_def)

lemma sync_by_client:
  obtains (aborted) e cs where
      "\<And>c now cluster. ClusterClientSetFunc c cluster = Inr cc \<Longrightarrow>
         syncClusterStatus c now cluster =
           \<lparr>result = Result0\<lparr>Requeue := True\<rparr>, err = Some e, calls = cs\<rparr>"
      "statusWrites cs = []"
  | (assembled) on h ver apis ns pre where
      "\<And>c now cluster. ClusterClientSetFunc c cluster = Inr cc \<Longrightarrow>
         syncClusterStatus c now cluster =
           updateStatusIfNeeded c cluster
             \<lparr>KubernetesVersion = ver, APIEnablements = apis,
              Conditions = generateReadyCondition
                (if IsClusterReady (ClusterStatus cluster) = (on \<and> h) \<and>
                    Conditions (ClusterStatus cluster) \<noteq> []
                 then LastTransitionTime (hd (Conditions (ClusterStatus cluster))) else now) on h,
              NodeSummary = ns\<rparr> pre"
      "statusWrites pre = []"
      "observedReady cc = (on \<and> h)"
proof -
  obtain e on h k "done" where p: "probePhase cc = (e, (on, h, k, done))"
    by (metis prod.exhaust)
  from probePhase_calls[OF p] obtain ps where d: "done = map HealthCall ps" by blast
  show thesis
  proof (cases e)
    case (Some e')
    have "syncClusterStatus c now cluster =
           updateStatusIfNeeded c cluster
             \<lparr>KubernetesVersion = [], APIEnablements = [],
              Conditions = generateReadyCondition
                (if IsClusterReady (ClusterStatus cluster) = (False \<and> False) \<and>
                    Conditions (ClusterStatus cluster) \<noteq> []
                 then LastTransitionTime (hd (Conditions (ClusterStatus cluster))) else now) False False,
              NodeSummary = NodeSummary0\<rparr> done"
      if "ClusterClientSetFunc c cluster = Inr cc" for c now cluster
    proof -
      have "syncClusterStatus c now cluster = syncOffline c now cluster done"
        using that p Some by (simp add: syncClusterStatus_def)
      also have "\<dots> = updateStatusIfNeeded c cluster
          ((setTransitionTime (ClusterStatus cluster)
              (ClusterStatus0\<lparr>Conditions := generateReadyCondition now False False\<rparr>))
             \<lparr>KubernetesVersion := [], APIEnablements := [], NodeSummary := NodeSummary0\<rparr>) done"
        by (simp add: syncOffline_def setTransitionTime_def ClusterStatus0_def)
      finally show ?thesis by (simp only: candidate_form)
    qed
    moreover have "statusWrites done = []" by (simp add: d statusWrites_health)
    moreover have "observedReady cc = (False \<and> False)"
      using p Some by (simp add: observedReady_def)
    ultimately show ?thesis by (rule assembled)
  next
    case None
    with p probePhase_online have on: "on" by blast
    have obs: "observedReady cc = (on \<and> h)"
      using p None by (simp add: observedReady_def)
    have s: "syncClusterStatus c now cluster = syncOnline c now cluster cc on h done"
      if "ClusterClientSetFunc c cluster = Inr cc" for c now cluster
      using that p None by (simp add: syncClusterStatus_def)
    obtain ver e1 where v: "getKubernetesVersion cc = (ver, e1)" by (metis prod.exhaust)
    obtain apis e2 where a: "getAPIEnablements cc = (apis, e2)" by (metis prod.exhaust)
    obtain ns e3 lc where n: "getNodeSummary cc = ((ns, e3), lc)" by (metis prod.exhaust)
    from getNodeSummary_calls[OF n] have lc: "statusWrites lc = []" .
    have w1: "statusWrites (done @ [ServerVersionCall]) = []"
      by (simp add: d statusWrites_append statusWrites_health) (simp add: statusWrites_def)
    have w2: "statusWrites (done @ [ServerVersionCall, ServerGroupsAndResourcesCall]) = []"
      by (simp add: d statusWrites_append statusWrites_health) (simp add: statusWrites_def)
    have w3: "statusWrites (done @ [ServerVersionCall, ServerGroupsAndResourcesCall] @ lc) = []"
      using lc by (simp add: d statusWrites_append statusWrites_health) (simp add: statusWrites_def)
    show ?thesis
    proof (cases e1)
      case (Some e')
      with v s have "\<And>c now cluster. ClusterClientSetFunc c cluster = Inr cc \<Longrightarrow>
         syncClusterStatus c now cluster =
           \<lparr>result = Result0\<lparr>Requeue := True\<rparr>, err = Some e', calls = done @ [ServerVersionCall]\<rparr>"
        by (simp add: syncOnline_def)
      then show ?thesis using w1 by (rule aborted)
    next
      case None
      note e1 = None
      show ?thesis
      proof (cases e2)
        case (Some e')
        with v a e1 s have "\<And>c now cluster. ClusterClientSetFunc c cluster = Inr cc \<Longrightarrow>
           syncClusterStatus c now cluster =
             \<lparr>result = Result0\<lparr>Requeue := True\<rparr>, err = Some e',
              calls = done @ [ServerVersionCall, ServerGroupsAndResourcesCall]\<rparr>"
          by (simp add: syncOnline_def)
        then show ?thesis using w2 by (rule aborted)
      next
        case None
        note e2 = None
        show ?thesis
        proof (cases e3)
          case (Some e')
          with v a n e1 e2 s have "\<And>c now cluster. ClusterClientSetFunc c cluster = Inr cc \<Longrightarrow>
             syncClusterStatus c now cluster =
               \<lparr>result = Result0\<lparr>Requeue := True\<rparr>, err = Some e',
                calls = done @ [ServerVersionCall, ServerGroupsAndResourcesCall] @ lc\<rparr>"
            by (simp add: syncOnline_def)
          then show ?thesis using w3 by (rule aborted)
        next
          case None
          have "syncClusterStatus c now cluster =
             updateStatusIfNeeded c cluster
               \<lparr>KubernetesVersion = ver, APIEnablements = apis,
                Conditions = generateReadyCondition
                  (if IsClusterReady (ClusterStatus cluster) = (on \<and> h) \<and>
                      Conditions (ClusterStatus cluster) \<noteq> []
                   then LastTransitionTime (hd (Conditions (ClusterStatus cluster))) else now) on h,
                NodeSummary = ns\<rparr> (done @ [ServerVersionCall, ServerGroupsAndResourcesCall] @ lc)"
            if "ClusterClientSetFunc c cluster = Inr cc" for c now cluster
          proof -
            have "syncClusterStatus c now cluster =
               updateStatusIfNeeded c cluster
                 ((setTransitionTime (ClusterStatus cluster)
                    (ClusterStatus0\<lparr>Conditions := generateReadyCondition now on h\<rparr>))
                   \<lparr>KubernetesVersion := ver, APIEnablements := apis, NodeSummary := ns\<rparr>)
                 (done @ [ServerVersionCall, ServerGroupsAndResourcesCall] @ lc)"
              using s[OF that] v a n e1 e2 None by (simp add: syncOnline_def)
            then show ?thesis by (simp only: candidate_form)
          qed
          then show ?thesis using w3 obs by (rule assembled)
        qed
      qed
    qed
  qed
qed

lemma Quantity_equal_refl: "rel_option Quantity_equal x x"
  by (cases x) (simp_all add: Quantity_equal_def)

lemma Semantic_DeepEqual_refl: "Semantic_DeepEqual a a"
  by (simp add: Semantic_DeepEqual_def NodeSummary_equal_def ResourceList_equal_def
      Quantity_equal_refl)

lemma Semantic_DeepEqual_Conditions: "Semantic_DeepEqual a b \<Longrightarrow> Conditions a = Conditions b"
  by (simp add: Semantic_DeepEqual_def)

lemma updateStatusIfNeeded_err:
  "err (updateStatusIfNeeded c cluster cur done) =
     (if Semantic_DeepEqual (ClusterStatus cluster) cur then None
      else StatusUpdate (Client c) (cluster\<lparr>ClusterStatus := cur\<rparr>))"
  by (simp add: updateStatusIfNeeded_def split: option.splits)

lemma updateStatusIfNeeded_stored:
  "statusWrites done = [] \<Longrightarrow>
   stored c (calls (updateStatusIfNeeded c cluster cur done)) cluster =
     (if \<not> Semantic_DeepEqual (ClusterStatus cluster) cur \<and>
         StatusUpdate (Client c) (cluster\<lparr>ClusterStatus := cur\<rparr>) = None
      then cluster\<lparr>ClusterStatus := cur\<rparr> else cluster)"
  by (simp add: updateStatusIfNeeded_calls stored_nowrites stored_nowrites')

lemma IsClusterReady_candidate:
  "IsClusterReady \<lparr>KubernetesVersion = ver, APIEnablements = apis,
      Conditions = generateReadyCondition t on h, NodeSummary = ns\<rparr> = (on \<and> h)"
  by (simp add: IsClusterReady_def IsClusterReady_generate)

lemma quiet_stable:
  assumes "err (syncClusterStatus c now1 cluster) = None"
    and "statusWrites (calls (syncClusterStatus c now1 cluster)) = []"
  shows "syncClusterStatus c now2 cluster = syncClusterStatus c now1 cluster"
proof (cases "ClusterClientSetFunc c cluster")
  case (Inl e)
  then show ?thesis by (simp add: syncClusterStatus_def)
next
  case (Inr cc)
  show ?thesis
  proof (cases rule: sync_by_client[of cc])
    case (aborted e cs)
    from aborted(1)[OF Inr] show ?thesis by simp
  next
    case (assembled on h ver apis ns pre)
    define T where "T = (\<lambda>now. if IsClusterReady (ClusterStatus cluster) = (on \<and> h) \<and>
                    Conditions (ClusterStatus cluster) \<noteq> []
                 then LastTransitionTime (hd (Conditions (ClusterStatus cluster))) else now)"
    define cand where "cand = (\<lambda>now. \<lparr>KubernetesVersion = ver, APIEnablements = apis,
              Conditions = generateReadyCondition (T now) on h, NodeSummary = ns\<rparr>)"
    from assembled(1)[OF Inr] have s: "syncClusterStatus c now cluster =
        updateStatusIfNeeded c cluster (cand now) pre" for now
      by (simp only: cand_def T_def)
    have eq: "Semantic_DeepEqual (ClusterStatus cluster) (cand now1)"
    proof (rule ccontr)
      assume "\<not> Semantic_DeepEqual (ClusterStatus cluster) (cand now1)"
      then have "statusWrites (calls (syncClusterStatus c now1 cluster)) \<noteq> []"
        by (simp add: s statusWrites_updateStatusIfNeeded[OF assembled(2)])
      with assms(2) show False by simp
    qed
    from Semantic_DeepEqual_Conditions[OF eq]
    have c: "Conditions (ClusterStatus cluster) = generateReadyCondition (T now1) on h"
      by (simp add: cand_def)
    then have ne: "Conditions (ClusterStatus cluster) \<noteq> []"
      by (simp add: generate_nonempty)
    from c have "IsClusterReady (ClusterStatus cluster) = (on \<and> h)"
      by (simp add: IsClusterReady_def IsClusterReady_generate)
    with ne have "T now2 = T now1" by (simp add: T_def)
    then have "cand now2 = cand now1" by (simp add: cand_def)
    then show ?thesis by (simp only: s)
  qed
qed

lemma success_converges:
  assumes "err (syncClusterStatus c now1 cluster) = None"
    and "ClusterClientSetFunc c (reconcileStored c now1 cluster) = ClusterClientSetFunc c cluster"
  shows "err (syncClusterStatus c now2 (reconcileStored c now1 cluster)) = None \<and>
         statusWrites (calls (syncClusterStatus c now2 (reconcileStored c now1 cluster))) = []"
proof (cases "ClusterClientSetFunc c cluster")
  case (Inl e)
  with assms(1) show ?thesis by (simp add: syncClusterStatus_def)
next
  case (Inr cc)
  show ?thesis
  proof (cases rule: sync_by_client[of cc])
    case (aborted e cs)
    from aborted(1)[OF Inr] assms(1) show ?thesis by simp
  next
    case (assembled on h ver apis ns pre)
    define T where "T = (if IsClusterReady (ClusterStatus cluster) = (on \<and> h) \<and>
                    Conditions (ClusterStatus cluster) \<noteq> []
                 then LastTransitionTime (hd (Conditions (ClusterStatus cluster))) else now1)"
    define cand1 where "cand1 = \<lparr>KubernetesVersion = ver, APIEnablements = apis,
              Conditions = generateReadyCondition T on h, NodeSummary = ns\<rparr>"
    from assembled(1)[OF Inr, of now1] have s1: "syncClusterStatus c now1 cluster =
        updateStatusIfNeeded c cluster cand1 pre"
      by (simp only: cand1_def T_def)
    show ?thesis
    proof (cases "Semantic_DeepEqual (ClusterStatus cluster) cand1")
      case True
      have w: "statusWrites (calls (syncClusterStatus c now1 cluster)) = []"
        by (simp add: s1 statusWrites_updateStatusIfNeeded[OF assembled(2)] True)
      then have "reconcileStored c now1 cluster = cluster"
        by (simp add: reconcileStored_def stored_nowrites')
      with quiet_stable[OF assms(1) w, of now2] assms(1) w show ?thesis by simp
    next
      case False
      with assms(1) have u: "StatusUpdate (Client c) (cluster\<lparr>ClusterStatus := cand1\<rparr>) = None"
        by (simp add: s1 updateStatusIfNeeded_err)
      with False have st: "reconcileStored c now1 cluster = cluster\<lparr>ClusterStatus := cand1\<rparr>"
        by (simp add: reconcileStored_def s1 updateStatusIfNeeded_stored[OF assembled(2)])
      with assms(2) Inr have cc: "ClusterClientSetFunc c (cluster\<lparr>ClusterStatus := cand1\<rparr>) = Inr cc"
        by simp
      have r: "IsClusterReady cand1 = (on \<and> h)"
        by (simp only: cand1_def IsClusterReady_candidate)
      have t: "LastTransitionTime (hd (Conditions cand1)) = T" "Conditions cand1 \<noteq> []"
        by (simp_all add: cand1_def hd_generate generate_nonempty)
      from assembled(1)[OF cc, of now2] r t
      have "syncClusterStatus c now2 (cluster\<lparr>ClusterStatus := cand1\<rparr>) =
          updateStatusIfNeeded c (cluster\<lparr>ClusterStatus := cand1\<rparr>) cand1 pre"
        by (simp add: cand1_def)
      then show ?thesis
        by (simp add: st updateStatusIfNeeded_err Semantic_DeepEqual_refl 
            statusWrites_updateStatusIfNeeded[OF assembled(2)])
    qed
  qed
qed

lemma healthyMember_sync_err:
  "err (syncClusterStatus (controllerFor healthyMember) now cluster) = None"
  by (simp add: syncClusterStatus_def controllerFor_def probePhase_def healthCheck_def
      healthyMember_def getClusterHealthStatus_def healthEndpointCheck_def okServer_def
      StatusOK_def StatusNotFound_def syncOnline_def getKubernetesVersion_def
      getAPIEnablements_def getNodeSummary_def updateStatusIfNeeded_err controlPlane_def)

text \<open>
  C2. When the assembled status is semantically equal to the stored one,
  \<^verbatim>\<open>updateStatusIfNeeded\<close> makes no call and returns a result that requeues after the
  configured frequency, with no error. Hence, after a reconciliation that ended
  without error, reconciling the stored object again while the member cluster gives
  the same answers makes no status update, whatever the time, and neither does the
  reconciliation after that one.
\<close>

theorem updateStatusIfNeeded_idempotent:
  "(Semantic_DeepEqual (ClusterStatus cluster) currentClusterStatus \<longrightarrow>
      updateStatusIfNeeded c cluster currentClusterStatus done =
        \<lparr>result = \<lparr>Requeue = False, RequeueAfter = ClusterStatusUpdateFrequency c\<rparr>,
         err = None, calls = done\<rparr>) \<and>
   (err (syncClusterStatus c now1 cluster) = None \<and>
    (\<forall>obj. ClusterClientSetFunc c obj = ClusterClientSetFunc c cluster) \<longrightarrow>
      statusWrites (calls (syncClusterStatus c now2 (reconcileStored c now1 cluster))) = [] \<and>
      err (syncClusterStatus c now2 (reconcileStored c now1 cluster)) = None \<and>
      reconcileStored c now2 (reconcileStored c now1 cluster) = reconcileStored c now1 cluster \<and>
      statusWrites (calls (syncClusterStatus c now3
         (reconcileStored c now2 (reconcileStored c now1 cluster)))) = [])"
proof (intro conjI impI)
  assume "Semantic_DeepEqual (ClusterStatus cluster) currentClusterStatus"
  then show "updateStatusIfNeeded c cluster currentClusterStatus done =
        \<lparr>result = \<lparr>Requeue = False, RequeueAfter = ClusterStatusUpdateFrequency c\<rparr>,
         err = None, calls = done\<rparr>"
    by (simp add: updateStatusIfNeeded_def Result0_def)
next
  assume a: "err (syncClusterStatus c now1 cluster) = None \<and>
    (\<forall>obj. ClusterClientSetFunc c obj = ClusterClientSetFunc c cluster)"
  then have h: "ClusterClientSetFunc c (reconcileStored c now1 cluster) = ClusterClientSetFunc c cluster"
    by simp
  from success_converges[OF conjunct1[OF a] h, of now2]
  have q: "err (syncClusterStatus c now2 (reconcileStored c now1 cluster)) = None"
    and w: "statusWrites (calls (syncClusterStatus c now2 (reconcileStored c now1 cluster))) = []"
    by simp_all
  from w show "statusWrites (calls (syncClusterStatus c now2 (reconcileStored c now1 cluster))) = []" .
  from q show "err (syncClusterStatus c now2 (reconcileStored c now1 cluster)) = None" .
  from w show same: "reconcileStored c now2 (reconcileStored c now1 cluster) = reconcileStored c now1 cluster"
    by (simp add: reconcileStored_def[of c now2] stored_nowrites')
  from quiet_stable[OF q w, of now3] w
  show "statusWrites (calls (syncClusterStatus c now3
         (reconcileStored c now2 (reconcileStored c now1 cluster)))) = []"
    by (simp add: same)
qed

theorem updateStatusIfNeeded_idempotent_witness:
  "Semantic_DeepEqual (ClusterStatus member1) memberStatus \<and>
   updateStatusIfNeeded (controllerFor healthyMember) member1 memberStatus [] =
     \<lparr>result = \<lparr>Requeue = False, RequeueAfter = 10000\<rparr>, err = None, calls = []\<rparr> \<and>
   err (syncClusterStatus (controllerFor healthyMember) 100 member1) = None \<and>
   statusWrites (calls (syncClusterStatus (controllerFor healthyMember) 200
      (reconcileStored (controllerFor healthyMember) 100 member1))) = [] \<and>
   statusWrites (calls (syncClusterStatus (controllerFor healthyMember) 300
      (reconcileStored (controllerFor healthyMember) 200
         (reconcileStored (controllerFor healthyMember) 100 member1)))) = []"
proof -
  have h1: "Semantic_DeepEqual (ClusterStatus member1) memberStatus"
    by (simp add: member1_def Semantic_DeepEqual_refl)
  have h2: "err (syncClusterStatus (controllerFor healthyMember) 100 member1) = None"
    by (rule healthyMember_sync_err)
  have h3: "\<forall>obj. ClusterClientSetFunc (controllerFor healthyMember) obj =
                  ClusterClientSetFunc (controllerFor healthyMember) member1"
    by (simp add: controllerFor_def)
  have f: "ClusterStatusUpdateFrequency (controllerFor healthyMember) = 10000"
    by (simp add: controllerFor_def)
  note t = updateStatusIfNeeded_idempotent [of member1 memberStatus "controllerFor healthyMember" "[]" 100 200 300]
  from t h1 f have "updateStatusIfNeeded (controllerFor healthyMember) member1 memberStatus [] =
     \<lparr>result = \<lparr>Requeue = False, RequeueAfter = 10000\<rparr>, err = None, calls = []\<rparr>"
    by simp
  moreover from t h2 h3
  have "statusWrites (calls (syncClusterStatus (controllerFor healthyMember) 200
      (reconcileStored (controllerFor healthyMember) 100 member1))) = []"
    by blast
  moreover from t h2 h3
  have "statusWrites (calls (syncClusterStatus (controllerFor healthyMember) 300
      (reconcileStored (controllerFor healthyMember) 200
         (reconcileStored (controllerFor healthyMember) 100 member1)))) = []"
    by blast
  ultimately show ?thesis using h1 h2 by blast
qed

lemma step_keep:
  assumes "Conditions (ClusterStatus cluster) \<noteq> []"
    and "\<And>cc. ClusterClientSetFunc c cluster = Inr cc \<Longrightarrow>
           observedReady cc = IsClusterReady (ClusterStatus cluster)"
  shows "Conditions (ClusterStatus (reconcileStored c now cluster)) \<noteq> [] \<and>
         LastTransitionTime (hd (Conditions (ClusterStatus (reconcileStored c now cluster)))) =
           LastTransitionTime (hd (Conditions (ClusterStatus cluster))) \<and>
         IsClusterReady (ClusterStatus (reconcileStored c now cluster)) =
           IsClusterReady (ClusterStatus cluster)"
proof (cases "ClusterClientSetFunc c cluster")
  case (Inl e)
  then have "reconcileStored c now cluster = cluster"
    by (simp add: reconcileStored_def syncClusterStatus_def)
  with assms(1) show ?thesis by simp
next
  case (Inr cc)
  show ?thesis
  proof (cases rule: sync_by_client[of cc])
    case (aborted e cs)
    from aborted(1)[OF Inr, of now] aborted(2) have "reconcileStored c now cluster = cluster"
      by (simp add: reconcileStored_def stored_nowrites')
    with assms(1) show ?thesis by simp
  next
    case (assembled on h ver apis ns pre)
    from assms(2)[OF Inr] assembled(3)
    have r: "IsClusterReady (ClusterStatus cluster) = (on \<and> h)" by simp
    define cand where "cand = \<lparr>KubernetesVersion = ver, APIEnablements = apis,
              Conditions = generateReadyCondition
                (LastTransitionTime (hd (Conditions (ClusterStatus cluster)))) on h,
              NodeSummary = ns\<rparr>"
    from assembled(1)[OF Inr, of now] r assms(1)
    have s: "syncClusterStatus c now cluster = updateStatusIfNeeded c cluster cand pre"
      by (simp add: cand_def)
    have st: "reconcileStored c now cluster = cluster \<or>
              reconcileStored c now cluster = cluster\<lparr>ClusterStatus := cand\<rparr>"
      by (simp add: reconcileStored_def s updateStatusIfNeeded_stored[OF assembled(2)])
    have c1: "Conditions cand \<noteq> []"
      "LastTransitionTime (hd (Conditions cand)) =
         LastTransitionTime (hd (Conditions (ClusterStatus cluster)))"
      by (simp_all add: cand_def generate_nonempty hd_generate)
    have c2: "IsClusterReady cand = IsClusterReady (ClusterStatus cluster)"
      by (simp only: r cand_def IsClusterReady_candidate)
    from st show ?thesis
    proof
      assume "reconcileStored c now cluster = cluster"
      with assms(1) show ?thesis by simp
    next
      assume "reconcileStored c now cluster = cluster\<lparr>ClusterStatus := cand\<rparr>"
      with c1 c2 show ?thesis by simp
    qed
  qed
qed

lemma step_flip:
  assumes "ClusterClientSetFunc c cluster = Inr cc"
    and "observedReady cc \<noteq> IsClusterReady (ClusterStatus cluster)"
    and "err (syncClusterStatus c now cluster) = None"
  shows "Conditions (ClusterStatus (reconcileStored c now cluster)) \<noteq> [] \<and>
         LastTransitionTime (hd (Conditions (ClusterStatus (reconcileStored c now cluster)))) = now \<and>
         IsClusterReady (ClusterStatus (reconcileStored c now cluster)) = observedReady cc"
proof (cases rule: sync_by_client[of cc])
  case (aborted e cs)
  from aborted(1)[OF assms(1), of now] assms(3) show ?thesis by simp
next
  case (assembled on h ver apis ns pre)
  from assms(2) assembled(3)
  have r: "IsClusterReady (ClusterStatus cluster) \<noteq> (on \<and> h)" by simp
  define cand where "cand = \<lparr>KubernetesVersion = ver, APIEnablements = apis,
              Conditions = generateReadyCondition now on h, NodeSummary = ns\<rparr>"
  from assembled(1)[OF assms(1), of now] r
  have s: "syncClusterStatus c now cluster = updateStatusIfNeeded c cluster cand pre"
    by (simp add: cand_def)
  have c2: "IsClusterReady cand = (on \<and> h)"
    by (simp only: cand_def IsClusterReady_candidate)
  have ne: "\<not> Semantic_DeepEqual (ClusterStatus cluster) cand"
  proof
    assume "Semantic_DeepEqual (ClusterStatus cluster) cand"
    from Semantic_DeepEqual_Conditions[OF this]
    have "IsClusterReady (ClusterStatus cluster) = IsClusterReady cand"
      by (simp add: IsClusterReady_def)
    with c2 r show False by simp
  qed
  with assms(3) have "StatusUpdate (Client c) (cluster\<lparr>ClusterStatus := cand\<rparr>) = None"
    by (simp add: s updateStatusIfNeeded_err)
  with ne have st: "reconcileStored c now cluster = cluster\<lparr>ClusterStatus := cand\<rparr>"
    by (simp add: reconcileStored_def s updateStatusIfNeeded_stored[OF assembled(2)])
  have "Conditions cand \<noteq> []" "LastTransitionTime (hd (Conditions cand)) = now"
    by (simp_all add: cand_def generate_nonempty hd_generate)
  with c2 assembled(3) show ?thesis by (simp add: st)
qed

lemma all_keep:
  assumes "Conditions (ClusterStatus cluster) \<noteq> []"
    and "\<forall>(c, now) \<in> set rounds. \<forall>obj cc. ClusterClientSetFunc c obj = Inr cc \<longrightarrow>
           observedReady cc = IsClusterReady (ClusterStatus cluster)"
  shows "Conditions (ClusterStatus (reconcileAll rounds cluster)) \<noteq> [] \<and>
         LastTransitionTime (hd (Conditions (ClusterStatus (reconcileAll rounds cluster)))) =
           LastTransitionTime (hd (Conditions (ClusterStatus cluster))) \<and>
         IsClusterReady (ClusterStatus (reconcileAll rounds cluster)) =
           IsClusterReady (ClusterStatus cluster)"
  using assms
proof (induction rounds arbitrary: cluster)
  case Nil
  then show ?case by simp
next
  case (Cons round rounds)
  obtain c now where round: "round = (c, now)" by (cases round)
  have k: "Conditions (ClusterStatus (reconcileStored c now cluster)) \<noteq> [] \<and>
         LastTransitionTime (hd (Conditions (ClusterStatus (reconcileStored c now cluster)))) =
           LastTransitionTime (hd (Conditions (ClusterStatus cluster))) \<and>
         IsClusterReady (ClusterStatus (reconcileStored c now cluster)) =
           IsClusterReady (ClusterStatus cluster)"
    by (rule step_keep) (use Cons.prems round in auto)
  have "Conditions (ClusterStatus (reconcileAll rounds (reconcileStored c now cluster))) \<noteq> [] \<and>
         LastTransitionTime (hd (Conditions (ClusterStatus (reconcileAll rounds (reconcileStored c now cluster))))) =
           LastTransitionTime (hd (Conditions (ClusterStatus (reconcileStored c now cluster)))) \<and>
         IsClusterReady (ClusterStatus (reconcileAll rounds (reconcileStored c now cluster))) =
           IsClusterReady (ClusterStatus (reconcileStored c now cluster))"
    by (rule Cons.IH) (use Cons.prems k in auto)
  with k round show ?case by simp
qed

lemma healthyMember_ready: "observedReady healthyMember"
  by (simp add: observedReady_def probePhase_def healthCheck_def healthyMember_def
      getClusterHealthStatus_def healthEndpointCheck_def okServer_def StatusOK_def
      StatusNotFound_def)

lemma offlineMember_not_ready: "\<not> observedReady offlineMember"
proof -
  have "probePhase offlineMember =
          (Some ErrWaitTimeout,
           (False, False, retryTicks offlineMember + 2,
            healthCalls offlineMember 0 (retryTicks offlineMember + 2)))"
    by (rule probePhase_offline) (rule offlineMember_offline)
  then show ?thesis by (simp add: observedReady_def)
qed

lemma offlineMember_sync_err:
  "err (syncClusterStatus (controllerFor offlineMember) now cluster) = None"
proof -
  have "probePhase offlineMember =
          (Some ErrWaitTimeout,
           (False, False, retryTicks offlineMember + 2,
            healthCalls offlineMember 0 (retryTicks offlineMember + 2)))"
    by (rule probePhase_offline) (rule offlineMember_offline)
  then have "fst (probePhase offlineMember) \<noteq> None" by simp
  moreover have "ClusterClientSetFunc (controllerFor offlineMember) cluster = Inr offlineMember"
    by (simp add: controllerFor_def)
  ultimately obtain ps where "syncClusterStatus (controllerFor offlineMember) now cluster =
           updateStatusIfNeeded (controllerFor offlineMember) cluster
             (setTransitionTime (ClusterStatus cluster)
                (ClusterStatus0\<lparr>Conditions := [newClusterOfflineCondition now]\<rparr>))
             (map HealthCall ps)"
    using sync_timeout by blast
  then show ?thesis
    by (simp add: updateStatusIfNeeded_err controllerFor_def controlPlane_def)
qed

text \<open>
  C1. When the old and the new status have the same classification and the old status
  has a condition, \<^verbatim>\<open>setTransitionTime\<close> gives every condition of the new status the
  transition time of the first condition of the old one; when the classifications
  differ, the new status is left as it is, with the time of this reconciliation. A
  generated condition classifies as ready when the cluster is online and healthy, and
  as not-ready when it is unreachable or unhealthy. Hence the transition time of the
  stored status stays the same over any sequence of reconciliations that observe the
  stored classification; and a reconciliation that observes the other classification
  and completes sets it to its own time, where it stays over the reconciliations that
  follow and observe the new classification.
\<close>

theorem setTransitionTime_preserved:
  "(IsClusterReady old = IsClusterReady new \<and> Conditions old \<noteq> [] \<longrightarrow>
      Conditions (setTransitionTime old new) =
        map (\<lambda>x. x\<lparr>LastTransitionTime := LastTransitionTime (hd (Conditions old))\<rparr>)
          (Conditions new) \<and>
      list_all (\<lambda>x. LastTransitionTime x = LastTransitionTime (hd (Conditions old)))
        (Conditions (setTransitionTime old new))) \<and>
   (IsClusterReady old \<noteq> IsClusterReady new \<longrightarrow> setTransitionTime old new = new) \<and>
   IsClusterReady (ClusterStatus0\<lparr>Conditions := generateReadyCondition t online healthy\<rparr>) =
     (online \<and> healthy) \<and>
   (Conditions (ClusterStatus cluster) \<noteq> [] \<and>
    (\<forall>(c, now) \<in> set rounds. \<forall>obj cc. ClusterClientSetFunc c obj = Inr cc \<longrightarrow>
        observedReady cc = IsClusterReady (ClusterStatus cluster)) \<longrightarrow>
      LastTransitionTime (hd (Conditions (ClusterStatus (reconcileAll rounds cluster)))) =
        LastTransitionTime (hd (Conditions (ClusterStatus cluster)))) \<and>
   (ClusterClientSetFunc c1 cluster = Inr cc1 \<and>
    observedReady cc1 \<noteq> IsClusterReady (ClusterStatus cluster) \<and>
    err (syncClusterStatus c1 now1 cluster) = None \<and>
    (\<forall>(c, now) \<in> set rounds. \<forall>obj cc. ClusterClientSetFunc c obj = Inr cc \<longrightarrow>
        observedReady cc = observedReady cc1) \<longrightarrow>
      LastTransitionTime (hd (Conditions (ClusterStatus (reconcileStored c1 now1 cluster)))) = now1 \<and>
      LastTransitionTime (hd (Conditions (ClusterStatus
        (reconcileAll rounds (reconcileStored c1 now1 cluster))))) = now1)"
proof (intro conjI impI)
  assume a: "IsClusterReady old = IsClusterReady new \<and> Conditions old \<noteq> []"
  then show "Conditions (setTransitionTime old new) =
        map (\<lambda>x. x\<lparr>LastTransitionTime := LastTransitionTime (hd (Conditions old))\<rparr>)
          (Conditions new)"
    by (simp add: Conditions_setTransitionTime)
  then show "list_all (\<lambda>x. LastTransitionTime x = LastTransitionTime (hd (Conditions old)))
        (Conditions (setTransitionTime old new))"
    by (simp add: list_all_iff)
next
  assume "IsClusterReady old \<noteq> IsClusterReady new"
  then show "setTransitionTime old new = new" by (simp add: setTransitionTime_def)
next
  show "IsClusterReady (ClusterStatus0\<lparr>Conditions := generateReadyCondition t online healthy\<rparr>) =
     (online \<and> healthy)"
    by (simp add: IsClusterReady_def IsClusterReady_generate)
next
  assume a: "Conditions (ClusterStatus cluster) \<noteq> [] \<and>
    (\<forall>(c, now) \<in> set rounds. \<forall>obj cc. ClusterClientSetFunc c obj = Inr cc \<longrightarrow>
        observedReady cc = IsClusterReady (ClusterStatus cluster))"
  from all_keep[OF conjunct1[OF a] conjunct2[OF a]]
  show "LastTransitionTime (hd (Conditions (ClusterStatus (reconcileAll rounds cluster)))) =
        LastTransitionTime (hd (Conditions (ClusterStatus cluster)))" by simp
next
  assume a: "ClusterClientSetFunc c1 cluster = Inr cc1 \<and>
    observedReady cc1 \<noteq> IsClusterReady (ClusterStatus cluster) \<and>
    err (syncClusterStatus c1 now1 cluster) = None \<and>
    (\<forall>(c, now) \<in> set rounds. \<forall>obj cc. ClusterClientSetFunc c obj = Inr cc \<longrightarrow>
        observedReady cc = observedReady cc1)"
  then have f: "Conditions (ClusterStatus (reconcileStored c1 now1 cluster)) \<noteq> [] \<and>
         LastTransitionTime (hd (Conditions (ClusterStatus (reconcileStored c1 now1 cluster)))) = now1 \<and>
         IsClusterReady (ClusterStatus (reconcileStored c1 now1 cluster)) = observedReady cc1"
    by (intro step_flip) simp_all
  then show "LastTransitionTime (hd (Conditions (ClusterStatus (reconcileStored c1 now1 cluster)))) = now1"
    by simp
  have "Conditions (ClusterStatus (reconcileAll rounds (reconcileStored c1 now1 cluster))) \<noteq> [] \<and>
         LastTransitionTime (hd (Conditions (ClusterStatus (reconcileAll rounds (reconcileStored c1 now1 cluster))))) =
           LastTransitionTime (hd (Conditions (ClusterStatus (reconcileStored c1 now1 cluster)))) \<and>
         IsClusterReady (ClusterStatus (reconcileAll rounds (reconcileStored c1 now1 cluster))) =
           IsClusterReady (ClusterStatus (reconcileStored c1 now1 cluster))"
    by (rule all_keep) (use a f in auto)
  with f show "LastTransitionTime (hd (Conditions (ClusterStatus
        (reconcileAll rounds (reconcileStored c1 now1 cluster))))) = now1"
    by simp
qed

theorem setTransitionTime_preserved_witness:
  "LastTransitionTime (hd (Conditions (ClusterStatus member1))) = 40 \<and>
   IsClusterReady (ClusterStatus member1) \<and>
   LastTransitionTime (hd (Conditions (ClusterStatus
     (reconcileAll [(controllerFor healthyMember, 100), (controllerFor healthyMember, 200)]
        member1)))) = 40 \<and>
   LastTransitionTime (hd (Conditions (ClusterStatus
     (reconcileStored (controllerFor offlineMember) 300 member1)))) = 300 \<and>
   LastTransitionTime (hd (Conditions (ClusterStatus
     (reconcileAll [(controllerFor offlineMember, 400)]
        (reconcileStored (controllerFor offlineMember) 300 member1))))) = 300"
proof -
  have m: "Conditions (ClusterStatus member1) \<noteq> []"
    "LastTransitionTime (hd (Conditions (ClusterStatus member1))) = 40"
    "IsClusterReady (ClusterStatus member1)"
    by (simp_all add: member1_def memberStatus_def newClusterReadyCondition_def
        IsClusterReady_def ClusterConditionReady_def ConditionTrue_def)
  have h1: "\<forall>(c, now) \<in> set [(controllerFor healthyMember, 100), (controllerFor healthyMember, 200)].
      \<forall>obj cc. ClusterClientSetFunc c obj = Inr cc \<longrightarrow>
        observedReady cc = IsClusterReady (ClusterStatus member1)"
    using m(3) healthyMember_ready by (simp add: controllerFor_def)
  have h2: "ClusterClientSetFunc (controllerFor offlineMember) member1 = Inr offlineMember"
    by (simp add: controllerFor_def)
  have h3: "observedReady offlineMember \<noteq> IsClusterReady (ClusterStatus member1)"
    using m(3) offlineMember_not_ready by simp
  have h4: "err (syncClusterStatus (controllerFor offlineMember) 300 member1) = None"
    by (rule offlineMember_sync_err)
  have h5: "\<forall>(c, now) \<in> set [(controllerFor offlineMember, 400)].
      \<forall>obj cc. ClusterClientSetFunc c obj = Inr cc \<longrightarrow>
        observedReady cc = observedReady offlineMember"
    by (simp add: controllerFor_def)
  note t1 = setTransitionTime_preserved [where cluster = member1
      and rounds = "[(controllerFor healthyMember, 100), (controllerFor healthyMember, 200)]"]
  note t2 = setTransitionTime_preserved [where cluster = member1 and rounds = "[(controllerFor offlineMember, 400)]"
      and ?c1.0 = "controllerFor offlineMember" and ?cc1.0 = offlineMember and ?now1.0 = 300]
  from t1 m(1) h1 have "LastTransitionTime (hd (Conditions (ClusterStatus
     (reconcileAll [(controllerFor healthyMember, 100), (controllerFor healthyMember, 200)]
        member1)))) = LastTransitionTime (hd (Conditions (ClusterStatus member1)))"
    by blast
  moreover from t2 h2 h3 h4 h5 have "LastTransitionTime (hd (Conditions (ClusterStatus
     (reconcileStored (controllerFor offlineMember) 300 member1)))) = 300 \<and>
   LastTransitionTime (hd (Conditions (ClusterStatus
     (reconcileAll [(controllerFor offlineMember, 400)]
        (reconcileStored (controllerFor offlineMember) 300 member1))))) = 300"
    by blast
  ultimately show ?thesis using m by simp
qed

subsection \<open>Resource aggregation\<close>

text \<open>
  The two loops of \<^verbatim>\<open>getUsedResource\<close> add the requests of a running pod once for
  every condition of type Ready with value True that its status lists.
\<close>

lemma usedByConditions_count:
  "usedByConditions pod cs (requestCPU, requestMem) =
     (requestCPU + of_nat (length (filter (\<lambda>c. PodConditionType c = ''Ready'' \<and>
                                              PodConditionStatus c = ''True'') cs)) *
                   MilliCPU (addPodRequestResource pod),
      requestMem + of_nat (length (filter (\<lambda>c. PodConditionType c = ''Ready'' \<and>
                                              PodConditionStatus c = ''True'') cs)) *
                   Memory (addPodRequestResource pod))"
  by (induction cs arbitrary: requestCPU requestMem) (simp_all add: algebra_simps)

lemma usedByPods_count:
  "usedByPods pods (requestCPU, requestMem) =
     (requestCPU + sum_list (map (\<lambda>pod. if Phase pod = ''Running''
          then of_nat (length (filter (\<lambda>c. PodConditionType c = ''Ready'' \<and>
                 PodConditionStatus c = ''True'') (PodConditions pod))) *
               MilliCPU (addPodRequestResource pod)
          else 0) pods),
      requestMem + sum_list (map (\<lambda>pod. if Phase pod = ''Running''
          then of_nat (length (filter (\<lambda>c. PodConditionType c = ''Ready'' \<and>
                 PodConditionStatus c = ''True'') (PodConditions pod))) *
               Memory (addPodRequestResource pod)
          else 0) pods))"
  by (induction pods arbitrary: requestCPU requestMem)
    (simp_all add: usedByConditions_count algebra_simps)

text \<open>
  The example of the specification: of three running pods, the two ready ones request
  500m and 128Mi, and 250m and 64Mi; the used CPU is 750m and the used memory 192Mi.
\<close>

lemma getUsedResource_example:
  "getUsedResource [podA, podB, podC] ''cpu'' = Some \<lparr>millis = 750, format = DecimalSI\<rparr> \<and>
   getUsedResource [podA, podB, podC] ''memory'' = Some \<lparr>millis = 201326592000, format = BinarySI\<rparr>"
  by (simp add: getUsedResource_def addPodRequestResource_def calculateResource_def podA_def podB_def podC_def
      addResource_def requestResource0_def
      ResourceCPU_def ResourceMemory_def MilliValue_def Value_def NewMilliQuantity_def NewQuantity_def)

text \<open>
  C7. A pod counts only when its phase is Running and its status has a condition of type
  Ready with value True, and the requests of its containers are summed in milli-units
  of CPU and bytes of memory; but the pod is not accumulated once: \<^verbatim>\<open>getUsedResource\<close>
  does not leave its inner loop at the first such condition, as \<^verbatim>\<open>getReadyStatusForNode\<close>
  does. A running pod that lists the condition twice and requests 500m and 128Mi is
  counted as 1000m and 256Mi.
\<close>

theorem getUsedResource_counts_twice:
  "MilliCPU (calculateResource podTwiceReady) = 500 \<and>
   Memory (calculateResource podTwiceReady) = 134217728 \<and>
   getUsedResource [podTwiceReady] ''cpu'' = Some \<lparr>millis = 1000, format = DecimalSI\<rparr> \<and>
   getUsedResource [podTwiceReady] ''memory'' = Some \<lparr>millis = 268435456000, format = BinarySI\<rparr>"
  by (simp add: getUsedResource_def addPodRequestResource_def calculateResource_def podTwiceReady_def
      addResource_def requestResource0_def
      ResourceCPU_def ResourceMemory_def MilliValue_def Value_def NewMilliQuantity_def NewQuantity_def)

lemma getReadyStatusForNode_iff:
  "getReadyStatusForNode cs =
     list_ex (\<lambda>x. NodeConditionType x = ''Ready'' \<and> NodeConditionStatus x = ''True'') cs"
  by (induction cs) auto

lemma countReady_filter:
  "countReady nodes n =
     n + length (filter (\<lambda>node. getReadyStatusForNode (NodeConditions node)) nodes)"
  by (induction nodes arbitrary: n) simp_all

lemma amount_addNodeAllocatable:
  "amount (addNodeAllocatable a node key) = amount (a key) + amount (NodeAllocatable node key)"
  by (simp add: addNodeAllocatable_def amount_def Add_def split: option.splits)

lemma none_addNodeAllocatable:
  "(addNodeAllocatable a node key = None) = (a key = None \<and> NodeAllocatable node key = None)"
  by (simp add: addNodeAllocatable_def split: option.splits)

lemma amount_foldl:
  "amount (foldl addNodeAllocatable a nodes key) =
     amount (a key) + sum_list (map (\<lambda>node. amount (NodeAllocatable node key)) nodes)"
  by (induction nodes arbitrary: a) (simp_all add: amount_addNodeAllocatable)

lemma none_foldl:
  "(foldl addNodeAllocatable a nodes key = None) =
     (a key = None \<and> list_all (\<lambda>node. NodeAllocatable node key = None) nodes)"
  by (induction nodes arbitrary: a) (auto simp: none_addNodeAllocatable)

text \<open>
  C8. When both list calls succeed, \<^verbatim>\<open>getNodeSummary\<close> sets the total number to the
  number of nodes, the ready number to the number of nodes whose status has a
  condition of type Ready with value True (a node without one is not counted), and
  the allocatable resources to the sum, name by name, of the allocatable quantities of
  all nodes: a name is absent when no node has it.
\<close>

theorem getNodeSummary_totals:
  "NodesList clusterClient = Inr nodeList \<and> PodsList clusterClient = Inr podList \<longrightarrow>
     snd (fst (getNodeSummary clusterClient)) = None \<and>
     TotalNum (fst (fst (getNodeSummary clusterClient))) = length nodeList \<and>
     ReadyNum (fst (fst (getNodeSummary clusterClient))) =
       length (filter (\<lambda>node. list_ex (\<lambda>x. NodeConditionType x = ''Ready'' \<and>
                                             NodeConditionStatus x = ''True'')
                                 (NodeConditions node)) nodeList) \<and>
     (Allocatable (fst (fst (getNodeSummary clusterClient))) key = None) =
       list_all (\<lambda>node. NodeAllocatable node key = None) nodeList \<and>
     (case Allocatable (fst (fst (getNodeSummary clusterClient))) key of
        None \<Rightarrow> 0 | Some q \<Rightarrow> millis q) =
       sum_list (map (\<lambda>node. case NodeAllocatable node key of None \<Rightarrow> 0 | Some q \<Rightarrow> millis q)
                   nodeList)"
  using amount_foldl [of Map.empty nodeList key]
  by (simp add: getNodeSummary_def countReady_filter getReadyStatusForNode_iff
      getClusterAllocatable_def none_foldl amount_def)

theorem getNodeSummary_totals_witness:
  "NodesList twoNodeMember = Inr [nodeA, nodeB] \<and>
   PodsList twoNodeMember = Inr [podA, podB, podC] \<and>
   TotalNum (fst (fst (getNodeSummary twoNodeMember))) = 2 \<and>
   ReadyNum (fst (fst (getNodeSummary twoNodeMember))) = 1 \<and>
   (case Allocatable (fst (fst (getNodeSummary twoNodeMember))) ''cpu'' of
      None \<Rightarrow> 0 | Some q \<Rightarrow> millis q) = 6000"
proof -
  have h: "NodesList twoNodeMember = Inr [nodeA, nodeB] \<and>
           PodsList twoNodeMember = Inr [podA, podB, podC]"
    by (simp add: twoNodeMember_def)
  from getNodeSummary_totals [of twoNodeMember "[nodeA, nodeB]" "[podA, podB, podC]" "''cpu''"] h
  have "TotalNum (fst (fst (getNodeSummary twoNodeMember))) = length [nodeA, nodeB] \<and>
     ReadyNum (fst (fst (getNodeSummary twoNodeMember))) =
       length (filter (\<lambda>node. list_ex (\<lambda>x. NodeConditionType x = ''Ready'' \<and>
                                             NodeConditionStatus x = ''True'')
                                 (NodeConditions node)) [nodeA, nodeB]) \<and>
     (case Allocatable (fst (fst (getNodeSummary twoNodeMember))) ''cpu'' of
        None \<Rightarrow> 0 | Some q \<Rightarrow> millis q) =
       sum_list (map (\<lambda>node. case NodeAllocatable node ''cpu'' of None \<Rightarrow> 0 | Some q \<Rightarrow> millis q)
                   [nodeA, nodeB])"
    by blast
  then show ?thesis using h by (simp add: nodeA_def nodeB_def)
qed

end
